theory Spec2Isabelle
  imports Complex_Main
begin

section \<open>JavaScript values\<close>

text \<open>
  The server is a TypeScript program run by Node. Its handlers move JSON data between the
  caller and the Clockify service, so the values of the model are the JSON values together
  with \<open>undefined\<close> (what reading a missing property gives). A string is a list of
  characters. An object is the list of its properties in order, each name once. A number
  is a finite rational; how the engine prints a number is not decided by the program, so
  the printer is a field of the runtime (below).
\<close>

type_synonym number = rat

datatype jsvalue =
    JUndefined
  | JNull
  | JBool bool
  | JNum number
  | JStr string
  | JArr "jsvalue list"
  | JObj "(string \<times> jsvalue) list"

text \<open>Every value the program throws is an \<open>Error\<close> object; only its message is read.\<close>

datatype jserror = Error (message: string)

subsection \<open>Printing a non-negative integer (template literals)\<close>

definition digitChar :: "nat \<Rightarrow> char" where
  "digitChar n = ''0123456789abcdef'' ! (n mod 16)"

fun natToString :: "nat \<Rightarrow> string" where
  "natToString n =
     (if n < 10 then [digitChar n] else natToString (n div 10) @ [digitChar (n mod 10)])"

declare natToString.simps [simp del]

subsection \<open>\<open>JSON.stringify\<close>\<close>

text \<open>
  \<open>QuoteJSONString\<close>: the quotation mark, the backslash and the control characters are
  escaped, every other character is copied.
\<close>

definition quoteChar :: "char \<Rightarrow> string" where
  "quoteChar c =
     (if c = CHR ''\"'' then [CHR 0x5C, CHR ''\"'']
      else if c = CHR 0x5C then [CHR 0x5C, CHR 0x5C]
      else if c = CHR 0x08 then [CHR 0x5C, CHR ''b'']
      else if c = CHR 0x0C then [CHR 0x5C, CHR ''f'']
      else if c = CHR 0x0A then [CHR 0x5C, CHR ''n'']
      else if c = CHR 0x0D then [CHR 0x5C, CHR ''r'']
      else if c = CHR 0x09 then [CHR 0x5C, CHR ''t'']
      else if (of_char c :: nat) < 32
        then [CHR 0x5C, CHR ''u'', CHR ''0'', CHR ''0'',
              digitChar ((of_char c :: nat) div 16), digitChar ((of_char c :: nat) mod 16)]
      else [c])"

definition quoteJSONString :: "string \<Rightarrow> string" where
  "quoteJSONString s = [CHR ''\"''] @ concat (map quoteChar s) @ [CHR ''\"'']"

fun joinWith :: "string \<Rightarrow> string list \<Rightarrow> string" where
  "joinWith sep [] = []"
| "joinWith sep [x] = x"
| "joinWith sep (x # y # ys) = x @ sep @ joinWith sep (y # ys)"

text \<open>
  \<open>JSON.stringify\<close> gives \<open>undefined\<close> (here \<open>None\<close>) for \<open>undefined\<close>, leaves a
  property whose value is \<open>undefined\<close> out of an object and prints \<open>null\<close> for such an
  element of an array.
\<close>

fun stringify :: "(number \<Rightarrow> string) \<Rightarrow> jsvalue \<Rightarrow> string option"
  and stringifyElements :: "(number \<Rightarrow> string) \<Rightarrow> jsvalue list \<Rightarrow> string list"
  and stringifyProperties :: "(number \<Rightarrow> string) \<Rightarrow> (string \<times> jsvalue) list \<Rightarrow> string list"
where
  "stringify p JUndefined = None"
| "stringify p JNull = Some ''null''"
| "stringify p (JBool b) = Some (if b then ''true'' else ''false'')"
| "stringify p (JNum n) = Some (p n)"
| "stringify p (JStr s) = Some (quoteJSONString s)"
| "stringify p (JArr xs) = Some (''['' @ joinWith '','' (stringifyElements p xs) @ '']'')"
| "stringify p (JObj kvs) = Some (''{'' @ joinWith '','' (stringifyProperties p kvs) @ ''}'')"
| "stringifyElements p [] = []"
| "stringifyElements p (x # xs) =
     (case stringify p x of None \<Rightarrow> ''null'' | Some s \<Rightarrow> s) # stringifyElements p xs"
| "stringifyProperties p [] = []"
| "stringifyProperties p ((k, v) # kvs) =
     (case stringify p v of
        None \<Rightarrow> stringifyProperties p kvs
      | Some s \<Rightarrow> (quoteJSONString k @ '':'' @ s) # stringifyProperties p kvs)"

section \<open>The runtime: environment, network, clock\<close>

datatype http_method = GET | POST | PUT | DELETE

text \<open>The argument of one \<open>fetch\<close> call: the address and the options object.\<close>

record request =
  req_url :: string
  req_headers :: "(string \<times> string) list"
  req_method :: http_method
  req_body :: "string option"

text \<open>
  What the program reads of a \<open>Response\<close>: the status, and the outcomes of its methods
  \<open>text()\<close> and \<open>json()\<close>, each either the message of the error the method throws
  (\<open>Inl\<close>) or its value.
\<close>

record response =
  resp_status :: nat
  resp_text :: "string + string"
  resp_json :: "string + jsvalue"

text \<open>\<open>response.ok\<close>: the status is in the range 200 to 299, both ends included.\<close>

definition ok :: "response \<Rightarrow> bool" where
  "ok r = (200 \<le> resp_status r \<and> resp_status r \<le> 299)"

text \<open>
  Everything outside the program that a call depends on:
  \<^item> \<open>CLOCKIFY_API_KEY\<close> is \<open>process.env.CLOCKIFY_API_KEY\<close>, \<open>None\<close> when unset;
  \<^item> \<open>fetch\<close> answers a request with a response, or rejects with an error message
    (a network fault);
  \<^item> \<open>dateParse\<close> is the engine's \<open>Date.parse\<close> in the process's time zone:
    milliseconds since the epoch, \<open>None\<close> for \<open>NaN\<close>;
  \<^item> \<open>numberToString\<close> is the engine's printer of numbers.
\<close>

record runtime =
  CLOCKIFY_API_KEY :: "string option"
  fetch :: "request \<Rightarrow> string + response"
  dateParse :: "string \<Rightarrow> int option"
  numberToString :: "number \<Rightarrow> string"

section \<open>The HTTP gateway\<close>

definition MCP_NAME :: string where
  "MCP_NAME = ''mcp_clockify''"

definition VERSION :: string where
  "VERSION = ''1.0.19''"

definition CLOCKIFY_API_BASE :: string where
  "CLOCKIFY_API_BASE = ''https://api.clockify.me/api/v1''"

definition USER_AGENT :: string where
  "USER_AGENT = MCP_NAME @ ''/'' @ VERSION"

text \<open>
  The body option of \<open>fetch\<close>: an object (\<open>typeof body === "object"\<close>, which holds of
  \<open>null\<close> and arrays too) is serialised, a string is sent as it is, \<open>undefined\<close> is no
  body. The parameter's type admits nothing else; \<open>fetch\<close> would print such a value.
\<close>

fun requestBody :: "runtime \<Rightarrow> jsvalue \<Rightarrow> string option" where
  "requestBody rt JUndefined = None"
| "requestBody rt (JStr s) = Some s"
| "requestBody rt (JNum n) = Some (numberToString rt n)"
| "requestBody rt (JBool b) = Some (if b then ''true'' else ''false'')"
| "requestBody rt body = stringify (numberToString rt) body"

text \<open>
  The \<open>try\<close> block of \<open>makeAPIRequest\<close> after the call of \<open>fetch\<close>: the outcome of
  \<open>fetch\<close>, then of reading the response. \<open>Inl\<close> is a thrown error.
\<close>

definition readResponse :: "string + response \<Rightarrow> jserror + jsvalue" where
  "readResponse outcome =
     (case outcome of
        Inl fault \<Rightarrow> Inl (Error fault)
      | Inr response \<Rightarrow>
          if \<not> ok response then
            (case resp_text response of
               Inl m \<Rightarrow> Inl (Error m)
             | Inr errorText \<Rightarrow>
                 Inl (Error (''HTTP error! status: '' @ natToString (resp_status response)
                             @ '', response: '' @ errorText)))
          else if resp_status response = 204 then Inr (JObj [])
          else (case resp_json response of
                  Inl m \<Rightarrow> Inl (Error m)
                | Inr v \<Rightarrow> Inr v))"

text \<open>
  \<open>makeAPIRequest\<close> returns the list of the requests it handed to \<open>fetch\<close> (the
  network calls of this invocation, in order) and its outcome. The \<open>catch\<close> clause wraps
  the message of whatever the \<open>try\<close> block threw.
\<close>

type_synonym 'a effect = "request list \<times> (jserror + 'a)"

definition requestHeaders :: "runtime \<Rightarrow> (string \<times> string) list" where
  "requestHeaders rt =
     [(''User-Agent'', USER_AGENT),
      (''Accept'', ''application/json''),
      (''x-api-key'', case CLOCKIFY_API_KEY rt of Some k \<Rightarrow> k | None \<Rightarrow> []),
      (''Content-Type'', ''application/json'')]"

text \<open>The argument of the one \<open>fetch\<close> call of \<open>makeAPIRequest\<close>.\<close>

definition fetchArgument :: "runtime \<Rightarrow> string \<Rightarrow> http_method \<Rightarrow> jsvalue \<Rightarrow> request" where
  "fetchArgument rt url method body =
     \<lparr>req_url = CLOCKIFY_API_BASE @ url, req_headers = requestHeaders rt,
      req_method = method, req_body = requestBody rt body\<rparr>"

definition makeAPIRequest ::
  "runtime \<Rightarrow> string \<Rightarrow> http_method \<Rightarrow> jsvalue \<Rightarrow> jsvalue effect" where
  "makeAPIRequest rt url method body =
     (if CLOCKIFY_API_KEY rt = None \<or> CLOCKIFY_API_KEY rt = Some []
      then ([], Inl (Error ''Missing Clockify API key''))
      else
        let req = fetchArgument rt url method body
        in ([req],
            case readResponse (fetch rt req) of
              Inl error \<Rightarrow>
                Inl (Error (''Error making Clockify API request: '' @ message error))
            | Inr v \<Rightarrow> Inr v))"

section \<open>Results and the error wrapper\<close>

record content_item =
  item_type :: string
  item_text :: "string option"

record CallToolResult =
  content :: "content_item list"

text \<open>
  \<open>sendResponse\<close>: a string is the text as it is, any other value is serialised; the
  default of the parameter (the empty string) stands in for \<open>undefined\<close>. The text is
  an option because \<open>JSON.stringify\<close> can give \<open>undefined\<close>.
\<close>

definition sendResponse :: "runtime \<Rightarrow> string \<Rightarrow> jsvalue \<Rightarrow> CallToolResult" where
  "sendResponse rt type text =
     \<lparr>content =
        [\<lparr>item_type = type,
          item_text = (case text of
                         JUndefined \<Rightarrow> Some []
                       | JStr s \<Rightarrow> Some s
                       | _ \<Rightarrow> stringify (numberToString rt) text)\<rparr>]\<rparr>"

text \<open>
  A handler's body makes network calls and either returns a result or throws.
  \<open>responseWrapper\<close> runs it and turns a thrown error into a text result.
\<close>

definition responseWrapper ::
  "runtime \<Rightarrow> (unit \<Rightarrow> CallToolResult effect) \<Rightarrow> CallToolResult effect" where
  "responseWrapper rt fn =
     (case fn () of
        (calls, Inr result) \<Rightarrow> (calls, Inr result)
      | (calls, Inl error) \<Rightarrow>
          (calls, Inr (sendResponse rt ''text'' (JStr (''Error: '' @ message error)))))"

section \<open>Dates\<close>

text \<open>
  A \<open>Date\<close> holds a time value: a whole number of milliseconds since the epoch, or
  \<open>NaN\<close> (here \<open>None\<close>, an invalid date). \<open>new Date(s)\<close> parses the string with the
  engine's parser and clips the result to the range of time values.
\<close>

definition maxTimeValue :: int where
  "maxTimeValue = 8640000000000000"

definition timeClip :: "int \<Rightarrow> int option" where
  "timeClip t = (if \<bar>t\<bar> > maxTimeValue then None else Some t)"

definition newDate :: "runtime \<Rightarrow> string \<Rightarrow> int option" where
  "newDate rt s = (case dateParse rt s of None \<Rightarrow> None | Some t \<Rightarrow> timeClip t)"

subsection \<open>The calendar of ECMAScript\<close>

definition msPerDay :: int where
  "msPerDay = 86400000"

definition dayFromYear :: "int \<Rightarrow> int" where
  "dayFromYear y =
     365 * (y - 1970) + (y - 1969) div 4 - (y - 1901) div 100 + (y - 1601) div 400"

definition inLeapYear :: "int \<Rightarrow> bool" where
  "inLeapYear y = (y mod 4 = 0 \<and> (y mod 100 \<noteq> 0 \<or> y mod 400 = 0))"

text \<open>
  The year of a day number: the language defines it as the largest year that starts on or
  before the day (lemma \<open>yearFromDay_bounds\<close> below); this is the computation, by
  400-year eras, centuries, 4-year groups and years, counted from 1 January 1601.
\<close>

definition yearFromDay :: "int \<Rightarrow> int" where
  "yearFromDay d =
     (let z = d + 134774;
          era = z div 146097;
          doe = z mod 146097;
          c = min 3 (doe div 36524);
          doc = doe - 36524 * c;
          q = doc div 1461;
          doq = doc - 1461 * q;
          r = min 3 (doq div 365)
      in 1601 + 400 * era + 100 * c + 4 * q + r)"

text \<open>The number of days of the year before month \<open>m\<close> (0 is January).\<close>

definition daysBeforeMonth :: "bool \<Rightarrow> int \<Rightarrow> int" where
  "daysBeforeMonth leap m =
     (if m \<le> 0 then 0
      else if m = 1 then 31
      else (if leap then 1 else 0) +
        (if m = 2 then 59 else if m = 3 then 90 else if m = 4 then 120
         else if m = 5 then 151 else if m = 6 then 181 else if m = 7 then 212
         else if m = 8 then 243 else if m = 9 then 273 else if m = 10 then 304
         else 334))"

text \<open>\<open>MonthFromTime\<close>, from the day within the year.\<close>

definition monthFromDayInYear :: "bool \<Rightarrow> int \<Rightarrow> int" where
  "monthFromDayInYear leap n =
     (let l = (if leap then 1 else 0) in
      if n < 31 then 0
      else if n < 59 + l then 1
      else if n < 90 + l then 2
      else if n < 120 + l then 3
      else if n < 151 + l then 4
      else if n < 181 + l then 5
      else if n < 212 + l then 6
      else if n < 243 + l then 7
      else if n < 273 + l then 8
      else if n < 304 + l then 9
      else if n < 334 + l then 10
      else 11)"

subsection \<open>\<open>Date.prototype.toISOString\<close>\<close>

definition zeroPad :: "nat \<Rightarrow> nat \<Rightarrow> string" where
  "zeroPad k n = replicate (k - length (natToString n)) (CHR ''0'') @ natToString n"

definition yearString :: "int \<Rightarrow> string" where
  "yearString y =
     (if 0 \<le> y \<and> y \<le> 9999 then zeroPad 4 (nat y)
      else (if y < 0 then ''-'' else ''+'') @ zeroPad 6 (nat \<bar>y\<bar>))"

definition isoString :: "int \<Rightarrow> string" where
  "isoString t =
     (let day = t div msPerDay;
          tod = t mod msPerDay;
          y = yearFromDay day;
          n = day - dayFromYear y;
          m = monthFromDayInYear (inLeapYear y) n;
          dt = n - daysBeforeMonth (inLeapYear y) m + 1
      in yearString y @ ''-'' @ zeroPad 2 (nat (m + 1)) @ ''-'' @ zeroPad 2 (nat dt)
         @ ''T'' @ zeroPad 2 (nat (tod div 3600000))
         @ '':'' @ zeroPad 2 (nat (tod div 60000 mod 60))
         @ '':'' @ zeroPad 2 (nat (tod div 1000 mod 60))
         @ ''.'' @ zeroPad 3 (nat (tod mod 1000)) @ ''Z'')"

text \<open>The method throws a \<open>RangeError\<close> on an invalid date.\<close>

definition toISOString :: "int option \<Rightarrow> jserror + string" where
  "toISOString d =
     (case d of
        None \<Rightarrow> Inl (Error ''Invalid time value'')
      | Some t \<Rightarrow> Inr (isoString t))"

subsection \<open>The instant a UTC date-time string denotes\<close>

text \<open>
  The reading of the date-time format of the language with the zone designator \<open>Z\<close>:
  a year of four digits, or a sign and six digits, then month, day, hour, minute, second
  and milliseconds; fields out of range denote nothing. It is the yardstick for what
  the strings sent to the service mean, not part of the program.
\<close>

definition isDigit :: "char \<Rightarrow> bool" where
  "isDigit c = (c \<in> set ''0123456789'')"

definition digitValue :: "char \<Rightarrow> nat" where
  "digitValue c = (of_char c :: nat) - 48"

definition parseNat :: "string \<Rightarrow> nat" where
  "parseNat s = foldl (\<lambda>acc c. 10 * acc + digitValue c) 0 s"

definition takeDigits :: "nat \<Rightarrow> string \<Rightarrow> (int \<times> string) option" where
  "takeDigits k s =
     (if k \<le> length s \<and> list_all isDigit (take k s)
      then Some (int (parseNat (take k s)), drop k s) else None)"

definition expect :: "char \<Rightarrow> string \<Rightarrow> string option" where
  "expect c s = (case s of [] \<Rightarrow> None | x # rest \<Rightarrow> if x = c then Some rest else None)"

definition takeYear :: "string \<Rightarrow> (int \<times> string) option" where
  "takeYear s =
     (case s of
        [] \<Rightarrow> None
      | x # rest \<Rightarrow>
          if x = CHR ''+'' then takeDigits 6 rest
          else if x = CHR ''-'' then
            (case takeDigits 6 rest of
               None \<Rightarrow> None
             | Some (y, rest') \<Rightarrow> if y = 0 then None else Some (- y, rest'))
          else takeDigits 4 s)"

definition daysInMonth :: "bool \<Rightarrow> int \<Rightarrow> int" where
  "daysInMonth leap m =
     (if m = 1 then (if leap then 29 else 28)
      else if m = 3 \<or> m = 5 \<or> m = 8 \<or> m = 10 then 30 else 31)"

definition makeDate :: "int \<Rightarrow> int \<Rightarrow> int \<Rightarrow> int \<Rightarrow> int \<Rightarrow> int \<Rightarrow> int \<Rightarrow> int option" where
  "makeDate y mo d h mi s ms =
     (if 1 \<le> mo \<and> mo \<le> 12 \<and> 1 \<le> d \<and> d \<le> daysInMonth (inLeapYear y) (mo - 1)
         \<and> h \<le> 23 \<and> mi \<le> 59 \<and> s \<le> 59
      then timeClip
             ((dayFromYear y + daysBeforeMonth (inLeapYear y) (mo - 1) + d - 1) * msPerDay
              + h * 3600000 + mi * 60000 + s * 1000 + ms)
      else None)"

definition instantOfUTCString :: "string \<Rightarrow> int option" where
  "instantOfUTCString s0 =
     Option.bind (takeYear s0) (\<lambda>(y, s1).
     Option.bind (expect (CHR ''-'') s1) (\<lambda>s2.
     Option.bind (takeDigits 2 s2) (\<lambda>(mo, s3).
     Option.bind (expect (CHR ''-'') s3) (\<lambda>s4.
     Option.bind (takeDigits 2 s4) (\<lambda>(d, s5).
     Option.bind (expect (CHR ''T'') s5) (\<lambda>s6.
     Option.bind (takeDigits 2 s6) (\<lambda>(h, s7).
     Option.bind (expect (CHR '':'') s7) (\<lambda>s8.
     Option.bind (takeDigits 2 s8) (\<lambda>(mi, s9).
     Option.bind (expect (CHR '':'') s9) (\<lambda>s10.
     Option.bind (takeDigits 2 s10) (\<lambda>(sec, s11).
     Option.bind (expect (CHR ''.'') s11) (\<lambda>s12.
     Option.bind (takeDigits 3 s12) (\<lambda>(ms, s13).
     if s13 = ''Z'' then makeDate y mo d h mi sec ms else None)))))))))))))"

section \<open>Reading the service's answer\<close>

text \<open>
  \<open>v.k\<close>: reading a property of \<open>undefined\<close> or \<open>null\<close> throws a \<open>TypeError\<close> (the
  message is Node's); an object gives the property's value, or \<open>undefined\<close> when it has
  none; no other JSON value has a property of one of the names the handlers read.
\<close>

fun getProp :: "jsvalue \<Rightarrow> string \<Rightarrow> jserror + jsvalue" where
  "getProp JUndefined k =
     Inl (Error (''Cannot read properties of undefined (reading '' @ [CHR 0x27] @ k
                 @ [CHR 0x27] @ '')''))"
| "getProp JNull k =
     Inl (Error (''Cannot read properties of null (reading '' @ [CHR 0x27] @ k
                 @ [CHR 0x27] @ '')''))"
| "getProp (JObj kvs) k = Inr (case map_of kvs k of None \<Rightarrow> JUndefined | Some v \<Rightarrow> v)"
| "getProp v k = Inr JUndefined"

definition bindE :: "jserror + 'a \<Rightarrow> ('a \<Rightarrow> jserror + 'b) \<Rightarrow> jserror + 'b" where
  "bindE m f = (case m of Inl e \<Rightarrow> Inl e | Inr x \<Rightarrow> f x)"

fun mapE :: "('a \<Rightarrow> jserror + 'b) \<Rightarrow> 'a list \<Rightarrow> jserror + 'b list" where
  "mapE f [] = Inr []"
| "mapE f (x # xs) = bindE (f x) (\<lambda>y. bindE (mapE f xs) (\<lambda>ys. Inr (y # ys)))"

text \<open>
  \<open>response.map(callback)\<close>: an array is mapped, in order, and the first error a call
  of the callback throws is the error of the whole; any other value has no function
  \<open>map\<close>, and calling it throws a \<open>TypeError\<close>.
\<close>

definition arrayMap :: "jsvalue \<Rightarrow> (jsvalue \<Rightarrow> jserror + jsvalue) \<Rightarrow> jserror + jsvalue" where
  "arrayMap response callback =
     (case response of
        JArr xs \<Rightarrow> bindE (mapE callback xs) (\<lambda>ys. Inr (JArr ys))
      | JUndefined \<Rightarrow> bindE (getProp response ''map'') (\<lambda>_. Inr JUndefined)
      | JNull \<Rightarrow> bindE (getProp response ''map'') (\<lambda>_. Inr JUndefined)
      | _ \<Rightarrow> Inl (Error ''response.map is not a function''))"

text \<open>
  An object literal \<open>{k1: v.k1, ..., kn: v.kn}\<close> whose values are properties of one
  value, read in order.
\<close>

definition pick :: "jsvalue \<Rightarrow> string list \<Rightarrow> jserror + jsvalue" where
  "pick v ks = bindE (mapE (\<lambda>k. bindE (getProp v k) (\<lambda>x. Inr (k, x))) ks) (\<lambda>kvs. Inr (JObj kvs))"

text \<open>What follows a gateway call in a handler's body makes no further network call.\<close>

definition andThen :: "'a effect \<Rightarrow> ('a \<Rightarrow> jserror + 'b) \<Rightarrow> 'b effect" where
  "andThen m f = (case m of (calls, r) \<Rightarrow> (calls, bindE r f))"

text \<open>The arguments of a call are evaluated before the call; an error there leaves no call.\<close>

definition beforeCall :: "jserror + 'a \<Rightarrow> ('a \<Rightarrow> 'b effect) \<Rightarrow> 'b effect" where
  "beforeCall m f = (case m of Inl e \<Rightarrow> ([], Inl e) | Inr x \<Rightarrow> f x)"

section \<open>The tools\<close>

subsection \<open>Validated inputs\<close>

record list_projects_input =
  lp_workspaceId :: string
  lp_name :: "string option"

record list_tasks_input =
  lt_workspaceId :: string
  lt_projectId :: string

record list_time_entries_input =
  le_workspaceId :: string
  le_userId :: string
  le_start :: string
  le_end :: string
  le_page :: number
  le_pageSize :: number

record create_time_entry_input =
  ct_workspaceId :: string
  ct_billable :: bool
  ct_description :: string
  ct_start :: string
  ct_end :: string
  ct_projectId :: string

record update_time_entry_input =
  ut_timeEntryId :: string
  ut_workspaceId :: string
  ut_billable :: bool
  ut_description :: string
  ut_start :: string
  ut_end :: string
  ut_projectId :: string

record delete_time_entry_input =
  dt_timeEntryId :: string
  dt_workspaceId :: string

subsection \<open>The bodies of the handlers (the functions given to \<open>responseWrapper\<close>)\<close>

definition getClockifyUserBody :: "runtime \<Rightarrow> CallToolResult effect" where
  "getClockifyUserBody rt =
     andThen (makeAPIRequest rt ''/user'' GET JUndefined) (\<lambda>response.
       bindE (pick response
                [''id'', ''email'', ''name'', ''activeWorkspace'', ''defaultWorkspace''])
         (\<lambda>obj. Inr (sendResponse rt ''text'' obj)))"

definition listClockifyWorkspacesBody :: "runtime \<Rightarrow> CallToolResult effect" where
  "listClockifyWorkspacesBody rt =
     andThen (makeAPIRequest rt ''/workspaces'' GET JUndefined) (\<lambda>response.
       bindE (arrayMap response (\<lambda>workspace. pick workspace [''id'', ''name'']))
         (\<lambda>arr. Inr (sendResponse rt ''text'' arr)))"

definition listClockifyProjectsBody ::
  "runtime \<Rightarrow> list_projects_input \<Rightarrow> CallToolResult effect" where
  "listClockifyProjectsBody rt input =
     andThen
       (makeAPIRequest rt
          (''/workspaces/'' @ lp_workspaceId input
           @ ''/projects?archived=false&page=1&page-size=5000&name=''
           @ (case lp_name input of None \<Rightarrow> [] | Some n \<Rightarrow> n))
          GET JUndefined)
       (\<lambda>response.
          bindE (arrayMap response
                   (\<lambda>project. pick project [''id'', ''name'', ''workspaceId'', ''billable'']))
            (\<lambda>arr. Inr (sendResponse rt ''text'' arr)))"

definition listClockifyTasksBody ::
  "runtime \<Rightarrow> list_tasks_input \<Rightarrow> CallToolResult effect" where
  "listClockifyTasksBody rt input =
     andThen
       (makeAPIRequest rt
          (''/workspaces/'' @ lt_workspaceId input @ ''/projects/'' @ lt_projectId input
           @ ''/tasks'')
          GET JUndefined)
       (\<lambda>response.
          bindE (arrayMap response (\<lambda>task. pick task [''id'', ''name'', ''projectId'']))
            (\<lambda>arr. Inr (sendResponse rt ''text'' arr)))"

definition listClockifyTimeEntriesBody ::
  "runtime \<Rightarrow> list_time_entries_input \<Rightarrow> CallToolResult effect" where
  "listClockifyTimeEntriesBody rt input =
     andThen
       (makeAPIRequest rt
          (''/workspaces/'' @ le_workspaceId input @ ''/user/'' @ le_userId input
           @ ''/time-entries?start='' @ le_start input @ ''&end='' @ le_end input
           @ ''&page='' @ numberToString rt (le_page input)
           @ ''&page-size='' @ numberToString rt (le_pageSize input))
          GET JUndefined)
       (\<lambda>response. Inr (sendResponse rt ''text'' response))"

text \<open>
  The result of create and update: \<open>response.timeInterval.start\<close> reads a property of a
  property, and throws when \<open>timeInterval\<close> is missing.
\<close>

definition timeEntryResult :: "runtime \<Rightarrow> jsvalue \<Rightarrow> jserror + CallToolResult" where
  "timeEntryResult rt response =
     bindE (getProp response ''id'') (\<lambda>id.
     bindE (getProp response ''description'') (\<lambda>description.
     bindE (bindE (getProp response ''timeInterval'') (\<lambda>ti. getProp ti ''start'')) (\<lambda>start.
     bindE (bindE (getProp response ''timeInterval'') (\<lambda>ti. getProp ti ''end'')) (\<lambda>end.
     bindE (getProp response ''projectId'') (\<lambda>projectId.
       Inr (sendResponse rt ''text''
              (JObj [(''id'', id), (''description'', description), (''start'', start),
                     (''end'', end), (''projectId'', projectId)])))))))"

definition createClockifyTimeEntryBody ::
  "runtime \<Rightarrow> create_time_entry_input \<Rightarrow> int option \<Rightarrow> int option \<Rightarrow> CallToolResult effect" where
  "createClockifyTimeEntryBody rt input start end =
     beforeCall (toISOString start) (\<lambda>startString.
     beforeCall (toISOString end) (\<lambda>endString.
       andThen
         (makeAPIRequest rt
            (''/workspaces/'' @ ct_workspaceId input @ ''/time-entries'')
            POST
            (JObj [(''billable'', JBool (ct_billable input)),
                   (''description'', JStr (ct_description input)),
                   (''start'', JStr startString),
                   (''end'', JStr endString),
                   (''projectId'', JStr (ct_projectId input))]))
         (timeEntryResult rt)))"

definition updateClockifyTimeEntryBody ::
  "runtime \<Rightarrow> update_time_entry_input \<Rightarrow> int option \<Rightarrow> int option \<Rightarrow> CallToolResult effect" where
  "updateClockifyTimeEntryBody rt input start end =
     beforeCall (toISOString start) (\<lambda>startString.
     beforeCall (toISOString end) (\<lambda>endString.
       andThen
         (makeAPIRequest rt
            (''/workspaces/'' @ ut_workspaceId input @ ''/time-entries/''
             @ ut_timeEntryId input)
            PUT
            (JObj [(''billable'', JBool (ut_billable input)),
                   (''description'', JStr (ut_description input)),
                   (''start'', JStr startString),
                   (''end'', JStr endString),
                   (''projectId'', JStr (ut_projectId input))]))
         (timeEntryResult rt)))"

definition deleteClockifyTimeEntryBody ::
  "runtime \<Rightarrow> delete_time_entry_input \<Rightarrow> CallToolResult effect" where
  "deleteClockifyTimeEntryBody rt input =
     andThen
       (makeAPIRequest rt
          (''/workspaces/'' @ dt_workspaceId input @ ''/time-entries/''
           @ dt_timeEntryId input)
          DELETE JUndefined)
       (\<lambda>_. Inr (sendResponse rt ''text''
                   (JObj [(''message'', JStr ''Time entry deleted successfully.'')])))"

subsection \<open>The handlers\<close>

text \<open>One invocation of a tool, with its validated input.\<close>

datatype invocation =
    GetClockifyUser
  | ListClockifyWorkspaces
  | ListClockifyProjects list_projects_input
  | ListClockifyTasks list_tasks_input
  | ListClockifyTimeEntries list_time_entries_input
  | CreateClockifyTimeEntry create_time_entry_input
  | UpdateClockifyTimeEntry update_time_entry_input
  | DeleteClockifyTimeEntry delete_time_entry_input

text \<open>
  The function each handler gives to \<open>responseWrapper\<close>. Create and update build their
  two dates first, outside the wrapped function; \<open>new Date\<close> does not throw.
\<close>

fun handlerBody :: "runtime \<Rightarrow> invocation \<Rightarrow> CallToolResult effect" where
  "handlerBody rt GetClockifyUser = getClockifyUserBody rt"
| "handlerBody rt ListClockifyWorkspaces = listClockifyWorkspacesBody rt"
| "handlerBody rt (ListClockifyProjects input) = listClockifyProjectsBody rt input"
| "handlerBody rt (ListClockifyTasks input) = listClockifyTasksBody rt input"
| "handlerBody rt (ListClockifyTimeEntries input) = listClockifyTimeEntriesBody rt input"
| "handlerBody rt (CreateClockifyTimeEntry input) =
     (let start = newDate rt (ct_start input); end = newDate rt (ct_end input)
      in createClockifyTimeEntryBody rt input start end)"
| "handlerBody rt (UpdateClockifyTimeEntry input) =
     (let start = newDate rt (ut_start input); end = newDate rt (ut_end input)
      in updateClockifyTimeEntryBody rt input start end)"
| "handlerBody rt (DeleteClockifyTimeEntry input) = deleteClockifyTimeEntryBody rt input"

definition handler :: "runtime \<Rightarrow> invocation \<Rightarrow> CallToolResult effect" where
  "handler rt call = responseWrapper rt (\<lambda>_. handlerBody rt call)"

section \<open>The tool registry\<close>

subsection \<open>The parameter schemas the program declares\<close>

text \<open>
  The \<open>inputSchema\<close> of each \<open>registerTool\<close> call, as data: \<open>z.string()\<close>,
  \<open>z.number()\<close>, \<open>z.boolean()\<close> and the modifiers \<open>.min(n)\<close>, \<open>.optional()\<close> and
  \<open>.default(v)\<close> (\<open>.describe\<close> changes nothing).
\<close>

datatype zod =
    ZString
  | ZNumber
  | ZBoolean
  | ZMin zod number
  | ZOptional zod
  | ZDefault zod jsvalue

definition toolNames :: "string list" where
  "toolNames =
     [''get-clockify-user'', ''list-clockify-workspaces'', ''list-clockify-projects'',
      ''list-clockify-tasks'', ''list-clockify-time-entries'', ''create-clockify-time-entry'',
      ''update-clockify-time-entry'', ''delete-clockify-time-entry'']"

definition inputSchema :: "string \<Rightarrow> (string \<times> zod) list option" where
  "inputSchema name =
     (if name = ''get-clockify-user'' then Some []
      else if name = ''list-clockify-workspaces'' then Some []
      else if name = ''list-clockify-projects'' then
        Some [(''workspaceId'', ZString), (''name'', ZOptional ZString)]
      else if name = ''list-clockify-tasks'' then
        Some [(''workspaceId'', ZString), (''projectId'', ZString)]
      else if name = ''list-clockify-time-entries'' then
        Some [(''workspaceId'', ZString), (''userId'', ZString), (''start'', ZString),
              (''end'', ZString), (''page'', ZDefault (ZMin ZNumber 1) (JNum 1)),
              (''pageSize'', ZDefault (ZMin ZNumber 1) (JNum 100))]
      else if name = ''create-clockify-time-entry'' then
        Some [(''workspaceId'', ZString),
              (''billable'', ZDefault (ZOptional ZBoolean) (JBool True)),
              (''description'', ZString), (''start'', ZString), (''end'', ZString),
              (''projectId'', ZString)]
      else if name = ''update-clockify-time-entry'' then
        Some [(''timeEntryId'', ZString), (''workspaceId'', ZString),
              (''billable'', ZDefault (ZOptional ZBoolean) (JBool True)),
              (''description'', ZString), (''start'', ZString), (''end'', ZString),
              (''projectId'', ZString)]
      else if name = ''delete-clockify-time-entry'' then
        Some [(''timeEntryId'', ZString), (''workspaceId'', ZString)]
      else None)"

subsection \<open>Validation and dispatch\<close>

text \<open>
  Modelled from the spec: the validation of a tool's arguments against its schema, which
  the protocol library does (its code is not part of the program's sources). The spec:
  the parameter schema enforces types and required or optional status; a missing required
  field, a wrong type and an out-of-range number are the validation errors. A missing
  argument is \<open>undefined\<close>.
\<close>

datatype problem = Required | InvalidType | TooSmall

text \<open>
  Modelled from the spec: what one schema makes of one value. A type accepts the values of
  that type; \<open>.min(n)\<close> refuses a smaller number; \<open>.optional()\<close> lets the value be
  missing; \<open>.default(v)\<close> puts \<open>v\<close> for a missing value.
\<close>

fun parseValue :: "zod \<Rightarrow> jsvalue \<Rightarrow> problem + jsvalue" where
  "parseValue ZString v =
     (case v of JStr s \<Rightarrow> Inr v | JUndefined \<Rightarrow> Inl Required | _ \<Rightarrow> Inl InvalidType)"
| "parseValue ZNumber v =
     (case v of JNum n \<Rightarrow> Inr v | JUndefined \<Rightarrow> Inl Required | _ \<Rightarrow> Inl InvalidType)"
| "parseValue ZBoolean v =
     (case v of JBool b \<Rightarrow> Inr v | JUndefined \<Rightarrow> Inl Required | _ \<Rightarrow> Inl InvalidType)"
| "parseValue (ZMin z n) v =
     (case parseValue z v of
        Inr (JNum x) \<Rightarrow> if n \<le> x then Inr (JNum x) else Inl TooSmall
      | r \<Rightarrow> r)"
| "parseValue (ZOptional z) v = (if v = JUndefined then Inr JUndefined else parseValue z v)"
| "parseValue (ZDefault z d) v = (if v = JUndefined then Inr d else parseValue z v)"

text \<open>Modelled from the spec: the argument given for a parameter, \<open>undefined\<close> when omitted.\<close>

definition argument :: "(string \<times> jsvalue) list \<Rightarrow> string \<Rightarrow> jsvalue" where
  "argument arguments p = (case map_of arguments p of None \<Rightarrow> JUndefined | Some v \<Rightarrow> v)"

text \<open>
  Modelled from the spec: validation of the whole argument object, parameter by
  parameter; it gives the parsed input, or every parameter at fault with its problem (the
  descriptive error).
\<close>

fun validate ::
  "(string \<times> zod) list \<Rightarrow> (string \<times> jsvalue) list
     \<Rightarrow> (string \<times> problem) list + (string \<times> jsvalue) list" where
  "validate [] arguments = Inr []"
| "validate ((p, z) # schema) arguments =
     (case (parseValue z (argument arguments p), validate schema arguments) of
        (Inl pr, Inl issues) \<Rightarrow> Inl ((p, pr) # issues)
      | (Inl pr, Inr _) \<Rightarrow> Inl [(p, pr)]
      | (Inr v, Inl issues) \<Rightarrow> Inl issues
      | (Inr v, Inr vs) \<Rightarrow> Inr ((p, v) # vs))"

text \<open>
  Modelled from the spec: the parsed input with the types the handlers are written
  against (the types TypeScript infers from the schemas); first the readers of one
  parameter of each type, then the input of each tool.
\<close>

definition stringArg :: "(string \<times> jsvalue) list \<Rightarrow> string \<Rightarrow> string option" where
  "stringArg input p = (case map_of input p of Some (JStr s) \<Rightarrow> Some s | _ \<Rightarrow> None)"

definition optionalStringArg :: "(string \<times> jsvalue) list \<Rightarrow> string \<Rightarrow> string option option" where
  "optionalStringArg input p =
     (case map_of input p of
        Some (JStr s) \<Rightarrow> Some (Some s)
      | Some JUndefined \<Rightarrow> Some None
      | _ \<Rightarrow> None)"

definition numberArg :: "(string \<times> jsvalue) list \<Rightarrow> string \<Rightarrow> number option" where
  "numberArg input p = (case map_of input p of Some (JNum n) \<Rightarrow> Some n | _ \<Rightarrow> None)"

definition booleanArg :: "(string \<times> jsvalue) list \<Rightarrow> string \<Rightarrow> bool option" where
  "booleanArg input p = (case map_of input p of Some (JBool b) \<Rightarrow> Some b | _ \<Rightarrow> None)"

definition typedInput :: "string \<Rightarrow> (string \<times> jsvalue) list \<Rightarrow> invocation option" where
  "typedInput name input =
     (if name = ''get-clockify-user'' then Some GetClockifyUser
      else if name = ''list-clockify-workspaces'' then Some ListClockifyWorkspaces
      else if name = ''list-clockify-projects'' then
        Option.bind (stringArg input ''workspaceId'') (\<lambda>w.
        Option.bind (optionalStringArg input ''name'') (\<lambda>n.
          Some (ListClockifyProjects \<lparr>lp_workspaceId = w, lp_name = n\<rparr>)))
      else if name = ''list-clockify-tasks'' then
        Option.bind (stringArg input ''workspaceId'') (\<lambda>w.
        Option.bind (stringArg input ''projectId'') (\<lambda>p.
          Some (ListClockifyTasks \<lparr>lt_workspaceId = w, lt_projectId = p\<rparr>)))
      else if name = ''list-clockify-time-entries'' then
        Option.bind (stringArg input ''workspaceId'') (\<lambda>w.
        Option.bind (stringArg input ''userId'') (\<lambda>u.
        Option.bind (stringArg input ''start'') (\<lambda>s.
        Option.bind (stringArg input ''end'') (\<lambda>e.
        Option.bind (numberArg input ''page'') (\<lambda>pg.
        Option.bind (numberArg input ''pageSize'') (\<lambda>ps.
          Some (ListClockifyTimeEntries
                  \<lparr>le_workspaceId = w, le_userId = u, le_start = s, le_end = e,
                   le_page = pg, le_pageSize = ps\<rparr>)))))))
      else if name = ''create-clockify-time-entry'' then
        Option.bind (stringArg input ''workspaceId'') (\<lambda>w.
        Option.bind (booleanArg input ''billable'') (\<lambda>b.
        Option.bind (stringArg input ''description'') (\<lambda>d.
        Option.bind (stringArg input ''start'') (\<lambda>s.
        Option.bind (stringArg input ''end'') (\<lambda>e.
        Option.bind (stringArg input ''projectId'') (\<lambda>p.
          Some (CreateClockifyTimeEntry
                  \<lparr>ct_workspaceId = w, ct_billable = b, ct_description = d, ct_start = s,
                   ct_end = e, ct_projectId = p\<rparr>)))))))
      else if name = ''update-clockify-time-entry'' then
        Option.bind (stringArg input ''timeEntryId'') (\<lambda>t.
        Option.bind (stringArg input ''workspaceId'') (\<lambda>w.
        Option.bind (booleanArg input ''billable'') (\<lambda>b.
        Option.bind (stringArg input ''description'') (\<lambda>d.
        Option.bind (stringArg input ''start'') (\<lambda>s.
        Option.bind (stringArg input ''end'') (\<lambda>e.
        Option.bind (stringArg input ''projectId'') (\<lambda>p.
          Some (UpdateClockifyTimeEntry
                  \<lparr>ut_timeEntryId = t, ut_workspaceId = w, ut_billable = b,
                   ut_description = d, ut_start = s, ut_end = e, ut_projectId = p\<rparr>))))))))
      else if name = ''delete-clockify-time-entry'' then
        Option.bind (stringArg input ''timeEntryId'') (\<lambda>t.
        Option.bind (stringArg input ''workspaceId'') (\<lambda>w.
          Some (DeleteClockifyTimeEntry \<lparr>dt_timeEntryId = t, dt_workspaceId = w\<rparr>)))
      else None)"

text \<open>
  Modelled from the spec: the dispatch of a tool invocation. The schema is checked before
  the handler runs; invalid input is rejected with the validation's errors and the handler
  is not run. The network calls of the invocation are those of the handler.
\<close>

datatype rejection = UnknownTool | InvalidArguments "(string \<times> problem) list"

text \<open>
  Modelled from the spec: one tool call. It gives the network calls made and either a
  rejection or what the handler did (\<open>Inl\<close> there would be an error the handler throws).
\<close>

definition callTool ::
  "runtime \<Rightarrow> string \<Rightarrow> (string \<times> jsvalue) list
     \<Rightarrow> request list \<times> (rejection + (jserror + CallToolResult))" where
  "callTool rt name arguments =
     (case inputSchema name of
        None \<Rightarrow> ([], Inl UnknownTool)
      | Some schema \<Rightarrow>
          (case validate schema arguments of
             Inl issues \<Rightarrow> ([], Inl (InvalidArguments issues))
           | Inr input \<Rightarrow>
               (case typedInput name input of
                  None \<Rightarrow> ([], Inl (InvalidArguments []))
                | Some call \<Rightarrow> (case handler rt call of (calls, r) \<Rightarrow> (calls, Inr r)))))"

text \<open>
  Modelled from the spec: the required parameters of a tool, those whose schema refuses a
  missing value.
\<close>

definition requiredParams :: "string \<Rightarrow> string list" where
  "requiredParams name =
     (case inputSchema name of
        None \<Rightarrow> []
      | Some schema \<Rightarrow>
          map fst (filter (\<lambda>(p, z). parseValue z JUndefined = Inl Required) schema))"

section \<open>Concrete runtimes\<close>

text \<open>
  A process in the UTC zone that knows two local date-time strings, with a given
  credential and a given answer of the network to every request.
\<close>

definition exampleDateParse :: "string \<Rightarrow> int option" where
  "exampleDateParse s =
     (if s = ''2024-01-01T09:00:00'' then Some 1704099600000
      else if s = ''2024-01-01T17:00:00'' then Some 1704128400000
      else None)"

definition exampleRuntime :: "string option \<Rightarrow> string + response \<Rightarrow> runtime" where
  "exampleRuntime key outcome =
     \<lparr>CLOCKIFY_API_KEY = key, fetch = (\<lambda>_. outcome), dateParse = exampleDateParse,
      numberToString = (\<lambda>n. natToString (nat \<lfloor>n\<rfloor>))\<rparr>"

definition exampleResponse :: "nat \<Rightarrow> string \<Rightarrow> string + jsvalue \<Rightarrow> response" where
  "exampleResponse status body parsed =
     \<lparr>resp_status = status, resp_text = Inr body, resp_json = parsed\<rparr>"

definition exampleCreateInput :: "string \<Rightarrow> string \<Rightarrow> create_time_entry_input" where
  "exampleCreateInput start end =
     \<lparr>ct_workspaceId = ''w1'', ct_billable = True, ct_description = ''Research'',
      ct_start = start, ct_end = end, ct_projectId = ''p1''\<rparr>"

definition exampleTimeEntry :: jsvalue where
  "exampleTimeEntry =
     JObj [(''id'', JStr ''e1''), (''description'', JStr ''Research''),
           (''userId'', JStr ''u1''), (''billable'', JBool True),
           (''projectId'', JStr ''p1''),
           (''timeInterval'',
              JObj [(''start'', JStr ''2024-01-01T09:00:00Z''),
                    (''end'', JStr ''2024-01-01T17:00:00Z''),
                    (''duration'', JStr ''PT8H'')])]"

text \<open>A runtime with a credential whose service answers every request with one time entry.\<close>

definition exampleService :: runtime where
  "exampleService =
     exampleRuntime (Some ''key'') (Inr (exampleResponse 200 ''{..}'' (Inr exampleTimeEntry)))"

section \<open>Decimal numerals\<close>

lemma below_ten_cases:
  "k < (10::nat) \<Longrightarrow>
     k = 0 \<or> k = 1 \<or> k = 2 \<or> k = 3 \<or> k = 4 \<or> k = 5 \<or> k = 6 \<or> k = 7 \<or> k = 8 \<or> k = 9"
  by arith

lemma below_ten:
  assumes "k < (10::nat)"
  obtains "k = 0" | "k = 1" | "k = 2" | "k = 3" | "k = 4" | "k = 5" | "k = 6" | "k = 7"
    | "k = 8" | "k = 9"
  using below_ten_cases [OF assms] by blast

lemma digitChar_isDigit: "k < 10 \<Longrightarrow> isDigit (digitChar k)"
  by (erule below_ten) (simp_all add: digitChar_def isDigit_def)

lemma digitValue_digitChar: "k < 10 \<Longrightarrow> digitValue (digitChar k) = k"
  by (erule below_ten) (simp_all add: digitChar_def digitValue_def)

lemma parseNat_snoc: "parseNat (s @ [c]) = 10 * parseNat s + digitValue c"
  by (simp add: parseNat_def)

lemma natToString_digits: "list_all isDigit (natToString n)"
proof (induction n rule: natToString.induct)
  case (1 n)
  show ?case
  proof (cases "n < 10")
    case True
    then show ?thesis
      by (simp add: natToString.simps [of n] digitChar_isDigit)
  next
    case False
    with 1 show ?thesis
      by (simp add: natToString.simps [of n] digitChar_isDigit)
  qed
qed

lemma parseNat_natToString: "parseNat (natToString n) = n"
proof (induction n rule: natToString.induct)
  case (1 n)
  show ?case
  proof (cases "n < 10")
    case True
    then show ?thesis
      by (simp add: natToString.simps [of n] parseNat_def digitValue_digitChar)
  next
    case False
    with 1 have "parseNat (natToString (n div 10)) = n div 10" by simp
    with False show ?thesis
      by (simp add: natToString.simps [of n] parseNat_snoc digitValue_digitChar)
  qed
qed

lemma natToString_length: "n < 10 ^ k \<Longrightarrow> 0 < k \<Longrightarrow> length (natToString n) \<le> k"
proof (induction n arbitrary: k rule: natToString.induct)
  case (1 n)
  show ?case
  proof (cases "n < 10")
    case True
    with 1(3) show ?thesis
      by (simp add: natToString.simps [of n])
  next
    case False
    obtain j where k: "k = Suc j" using 1(3) by (cases k) auto
    have "j \<noteq> 0" using False 1(2) k by (cases j) auto
    moreover have "n div 10 < 10 ^ j"
      using 1(2) k by (simp add: less_mult_imp_div_less mult.commute)
    ultimately have "length (natToString (n div 10)) \<le> j"
      using 1(1) [OF False, of j] by simp
    with False k show ?thesis
      by (simp add: natToString.simps [of n])
  qed
qed

lemma parseNat_zeros: "parseNat (replicate j (CHR ''0'') @ s) = parseNat s"
proof -
  have "foldl (\<lambda>acc c. 10 * acc + digitValue c) 0 (replicate j (CHR ''0'')) = 0"
    by (induction j) (simp_all add: digitValue_def)
  then show ?thesis by (simp add: parseNat_def)
qed

lemma zeroPad_numeral:
  assumes "n < 10 ^ k" and "0 < k"
  shows "length (zeroPad k n) = k" and "list_all isDigit (zeroPad k n)"
    and "parseNat (zeroPad k n) = n"
proof -
  from natToString_length [OF assms] show "length (zeroPad k n) = k"
    by (simp add: zeroPad_def)
  have "list_all isDigit (replicate j (CHR ''0''))" for j
    by (induction j) (simp_all add: isDigit_def)
  then show "list_all isDigit (zeroPad k n)"
    by (simp add: zeroPad_def natToString_digits)
  show "parseNat (zeroPad k n) = n"
    by (simp add: zeroPad_def parseNat_zeros parseNat_natToString)
qed

lemma takeDigits_zeroPad:
  assumes "n < 10 ^ k" and "0 < k"
  shows "takeDigits k (zeroPad k n @ rest) = Some (int n, rest)"
  using zeroPad_numeral [OF assms] by (simp add: takeDigits_def)

lemma zeroPad_first_digit:
  assumes "n < 10 ^ k" and "0 < k"
  obtains c cs where "zeroPad k n = c # cs" and "isDigit c"
proof -
  from zeroPad_numeral(1,2) [OF assms] assms(2) show ?thesis
    by (cases "zeroPad k n") (auto intro: that)
qed

lemma expect_next: "expect c (c # rest) = Some rest"
  by (simp add: expect_def)

section \<open>The error wrapper and the gateway's checks\<close>

lemma sendResponse_string:
  "sendResponse rt ty (JStr s) = \<lparr>content = [\<lparr>item_type = ty, item_text = Some s\<rparr>]\<rparr>"
  by (simp add: sendResponse_def)

text \<open>
  C1. Whatever the wrapped body of a handler throws, the handler returns a normal result
  whose one text item is the error's message after \<open>Error: \<close>; a result of the body is
  returned unchanged; a handler never throws. (Schema validation runs before the handler
  and is not part of its body; every error raised in the body, the gateway's included, is
  covered.)
\<close>

theorem handler_converts_failures:
  "(handlerBody rt call = (calls, Inl error) \<longrightarrow>
      handler rt call =
        (calls, Inr \<lparr>content = [\<lparr>item_type = ''text'',
                                  item_text = Some (''Error: '' @ message error)\<rparr>]\<rparr>))
   \<and> (handlerBody rt call = (calls, Inr result) \<longrightarrow> handler rt call = (calls, Inr result))
   \<and> (\<exists>calls' result'. handler rt call = (calls', Inr result'))"
proof -
  obtain cs r where b: "handlerBody rt call = (cs, r)"
    by (cases "handlerBody rt call")
  show ?thesis
  proof (cases r)
    case (Inl e)
    with b show ?thesis
      by (simp add: handler_def responseWrapper_def sendResponse_string)
  next
    case (Inr x)
    with b show ?thesis
      by (simp add: handler_def responseWrapper_def)
  qed
qed

theorem handler_converts_failures_witness:
  "handlerBody (exampleRuntime None (Inl ''unreachable'')) GetClockifyUser
     = ([], Inl (Error ''Missing Clockify API key''))
   \<and> handler (exampleRuntime None (Inl ''unreachable'')) GetClockifyUser
     = ([], Inr \<lparr>content = [\<lparr>item_type = ''text'',
                               item_text = Some ''Error: Missing Clockify API key''\<rparr>]\<rparr>)
   \<and> handlerBody
         (exampleRuntime (Some ''key'')
            (Inr (exampleResponse 204 [] (Inl ''Unexpected end of JSON input''))))
         (DeleteClockifyTimeEntry \<lparr>dt_timeEntryId = ''e1'', dt_workspaceId = ''w1''\<rparr>)
     = ([fetchArgument
           (exampleRuntime (Some ''key'')
              (Inr (exampleResponse 204 [] (Inl ''Unexpected end of JSON input''))))
           ''/workspaces/w1/time-entries/e1'' DELETE JUndefined],
        Inr \<lparr>content = [\<lparr>item_type = ''text'',
                   item_text = Some ''{\"message\":\"Time entry deleted successfully.\"}''\<rparr>]\<rparr>)
   \<and> handler
         (exampleRuntime (Some ''key'')
            (Inr (exampleResponse 204 [] (Inl ''Unexpected end of JSON input''))))
         (DeleteClockifyTimeEntry \<lparr>dt_timeEntryId = ''e1'', dt_workspaceId = ''w1''\<rparr>)
     = ([fetchArgument
           (exampleRuntime (Some ''key'')
              (Inr (exampleResponse 204 [] (Inl ''Unexpected end of JSON input''))))
           ''/workspaces/w1/time-entries/e1'' DELETE JUndefined],
        Inr \<lparr>content = [\<lparr>item_type = ''text'',
                   item_text = Some ''{\"message\":\"Time entry deleted successfully.\"}''\<rparr>]\<rparr>)"
  (is "?b1 \<and> ?h1 \<and> ?b2 \<and> ?h2")
proof -
  have b1: ?b1 by code_simp
  have b2: ?b2 by code_simp
  have h1: ?h1
    using b1 handler_converts_failures
      [of "exampleRuntime None (Inl ''unreachable'')" GetClockifyUser
          "[]" "Error ''Missing Clockify API key''"]
    by simp
  have h2: ?h2
    using b2 handler_converts_failures
      [of "exampleRuntime (Some ''key'')
             (Inr (exampleResponse 204 [] (Inl ''Unexpected end of JSON input'')))"
          "DeleteClockifyTimeEntry \<lparr>dt_timeEntryId = ''e1'', dt_workspaceId = ''w1''\<rparr>"]
    by simp
  from b1 h1 b2 h2 show ?thesis by (intro conjI)
qed

text \<open>
  C2. When the credential is absent or the empty string, \<open>makeAPIRequest\<close> throws the
  configuration error and hands no request to \<open>fetch\<close>: the list of its network calls
  is empty.
\<close>

theorem missing_credential_no_request:
  assumes "CLOCKIFY_API_KEY rt = None \<or> CLOCKIFY_API_KEY rt = Some []"
  shows "makeAPIRequest rt url meth body = ([], Inl (Error ''Missing Clockify API key''))"
  using assms unfolding makeAPIRequest_def by simp

theorem missing_credential_no_request_witness:
  "CLOCKIFY_API_KEY (exampleRuntime None (Inl ''unreachable'')) = None
   \<and> makeAPIRequest (exampleRuntime None (Inl ''unreachable'')) ''/user'' GET JUndefined
       = ([], Inl (Error ''Missing Clockify API key''))
   \<and> CLOCKIFY_API_KEY (exampleRuntime (Some []) (Inl ''unreachable'')) = Some []
   \<and> makeAPIRequest (exampleRuntime (Some []) (Inl ''unreachable'')) ''/user'' GET JUndefined
       = ([], Inl (Error ''Missing Clockify API key''))"
proof -
  have a: "CLOCKIFY_API_KEY (exampleRuntime None (Inl ''unreachable'')) = None"
    by (simp add: exampleRuntime_def)
  have b: "CLOCKIFY_API_KEY (exampleRuntime (Some []) (Inl ''unreachable'')) = Some []"
    by (simp add: exampleRuntime_def)
  show ?thesis
    using a b
      missing_credential_no_request
        [of "exampleRuntime None (Inl ''unreachable'')" "''/user''" GET JUndefined]
      missing_credential_no_request
        [of "exampleRuntime (Some []) (Inl ''unreachable'')" "''/user''" GET JUndefined]
    by simp
qed

lemma makeAPIRequest_with_key:
  assumes "CLOCKIFY_API_KEY rt = Some k" and "k \<noteq> []"
  shows "makeAPIRequest rt url meth body =
           ([fetchArgument rt url meth body],
            case readResponse (fetch rt (fetchArgument rt url meth body)) of
              Inl error \<Rightarrow> Inl (Error (''Error making Clockify API request: '' @ message error))
            | Inr v \<Rightarrow> Inr v)"
  using assms by (simp add: makeAPIRequest_def Let_def)

lemma bindE_Inr:
  assumes "bindE m f = Inr r"
  obtains x where "m = Inr x" and "f x = Inr r"
  using assms by (cases m) (simp_all add: bindE_def)

lemma andThen_Inr:
  assumes "andThen m f = (calls, Inr r)"
  obtains x where "m = (calls, Inr x)" and "f x = Inr r"
  using assms by (cases m) (auto simp: andThen_def elim: bindE_Inr)

lemma beforeCall_Inr:
  assumes "beforeCall m f = (calls, Inr r)"
  obtains x where "m = Inr x" and "f x = (calls, Inr r)"
  using assms by (cases m) (simp_all add: beforeCall_def)

text \<open>
  C3, as the code has it. \<open>response.ok\<close> holds of the statuses 200 to 299, 299 included:
  for a status below 200 or above 299 whose body text is read, \<open>makeAPIRequest\<close> makes
  its one network call and throws an error whose message holds the status in decimal
  (the digits that read back as the status) and the body text as it came; no parsed JSON
  is returned.
\<close>

theorem upstream_error_embeds_status_and_body:
  assumes "CLOCKIFY_API_KEY rt = Some k" and "k \<noteq> []"
    and "fetch rt (fetchArgument rt url meth body) = Inr response"
    and "resp_status response < 200 \<or> 299 < resp_status response"
    and "resp_text response = Inr errorText"
  shows "makeAPIRequest rt url meth body =
           ([fetchArgument rt url meth body],
            Inl (Error (''Error making Clockify API request: HTTP error! status: ''
                        @ natToString (resp_status response) @ '', response: '' @ errorText)))
       \<and> list_all isDigit (natToString (resp_status response))
       \<and> parseNat (natToString (resp_status response)) = resp_status response"
proof (intro conjI)
  show "list_all isDigit (natToString (resp_status response))"
    by (rule natToString_digits)
  show "parseNat (natToString (resp_status response)) = resp_status response"
    by (rule parseNat_natToString)
  have "\<not> ok response"
    using assms(4) by (auto simp: ok_def)
  then have "readResponse (fetch rt (fetchArgument rt url meth body)) =
               Inl (Error (''HTTP error! status: '' @ natToString (resp_status response)
                           @ '', response: '' @ errorText))"
    using assms(3,5) by (simp add: readResponse_def)
  then show "makeAPIRequest rt url meth body =
           ([fetchArgument rt url meth body],
            Inl (Error (''Error making Clockify API request: HTTP error! status: ''
                        @ natToString (resp_status response) @ '', response: '' @ errorText)))"
    using makeAPIRequest_with_key [OF assms(1,2), of url meth body] by simp
qed

theorem upstream_error_embeds_status_and_body_witness:
  "CLOCKIFY_API_KEY
     (exampleRuntime (Some ''key'')
        (Inr (exampleResponse 404 ''Not Found'' (Inl ''Unexpected token'')))) = Some ''key''
   \<and> ''key'' \<noteq> []
   \<and> fetch
        (exampleRuntime (Some ''key'')
           (Inr (exampleResponse 404 ''Not Found'' (Inl ''Unexpected token''))))
        (fetchArgument
           (exampleRuntime (Some ''key'')
              (Inr (exampleResponse 404 ''Not Found'' (Inl ''Unexpected token''))))
           ''/user'' GET JUndefined)
      = Inr (exampleResponse 404 ''Not Found'' (Inl ''Unexpected token''))
   \<and> (resp_status (exampleResponse 404 ''Not Found'' (Inl ''Unexpected token'')) < 200
       \<or> 299 < resp_status (exampleResponse 404 ''Not Found'' (Inl ''Unexpected token'')))
   \<and> resp_text (exampleResponse 404 ''Not Found'' (Inl ''Unexpected token''))
      = Inr ''Not Found''
   \<and> makeAPIRequest
        (exampleRuntime (Some ''key'')
           (Inr (exampleResponse 404 ''Not Found'' (Inl ''Unexpected token''))))
        ''/user'' GET JUndefined
      = ([fetchArgument
            (exampleRuntime (Some ''key'')
               (Inr (exampleResponse 404 ''Not Found'' (Inl ''Unexpected token''))))
            ''/user'' GET JUndefined],
         Inl (Error
           ''Error making Clockify API request: HTTP error! status: 404, response: Not Found''))"
  (is "?a \<and> ?b \<and> ?c \<and> ?d \<and> ?e \<and> ?f")
proof -
  have a: ?a by (simp add: exampleRuntime_def)
  have b: ?b by simp
  have c: ?c by (simp add: exampleRuntime_def)
  have d: ?d by (simp add: exampleResponse_def)
  have e: ?e by (simp add: exampleResponse_def)
  have n: "natToString 404 = ''404''" by code_simp
  have s: "resp_status (exampleResponse 404 ''Not Found'' (Inl ''Unexpected token'')) = 404"
    by (simp add: exampleResponse_def)
  have f: ?f
    using conjunct1 [OF upstream_error_embeds_status_and_body [OF a b c d e]]
    by (simp add: s n)
  from a b c d e f show ?thesis by (intro conjI)
qed

text \<open>
  The claim as stated takes the statuses outside the half-open range from 200 to 299 as
  failures. Status 299 is outside that range, and the call returns the parsed body.
\<close>

theorem status_299_counterexample:
  "\<not> (200 \<le> resp_status (exampleResponse 299 ''{}'' (Inr (JObj [])))
       \<and> resp_status (exampleResponse 299 ''{}'' (Inr (JObj []))) < 299)
   \<and> snd (makeAPIRequest
             (exampleRuntime (Some ''key'') (Inr (exampleResponse 299 ''{}'' (Inr (JObj [])))))
             ''/user'' GET JUndefined) = Inr (JObj [])"
  by code_simp

text \<open>
  C7. For a response with a status from 200 to 299 (so for every status of the claim's
  range): status 204 gives the empty object, whatever \<open>json()\<close> would do (it is not
  called); any other status gives the value \<open>json()\<close> parses from the body.
\<close>

theorem success_status_returns_json:
  assumes "CLOCKIFY_API_KEY rt = Some k" and "k \<noteq> []"
    and "fetch rt (fetchArgument rt url meth body) = Inr response"
    and "200 \<le> resp_status response" and "resp_status response \<le> 299"
  shows "(resp_status response = 204 \<longrightarrow>
            makeAPIRequest rt url meth body =
              ([fetchArgument rt url meth body], Inr (JObj [])))
       \<and> (resp_status response \<noteq> 204 \<longrightarrow> resp_json response = Inr v \<longrightarrow>
            makeAPIRequest rt url meth body = ([fetchArgument rt url meth body], Inr v))"
proof -
  have "ok response"
    using assms(4,5) by (simp add: ok_def)
  then have "readResponse (fetch rt (fetchArgument rt url meth body)) =
               (if resp_status response = 204 then Inr (JObj [])
                else case resp_json response of Inl m \<Rightarrow> Inl (Error m) | Inr v \<Rightarrow> Inr v)"
    using assms(3) by (simp add: readResponse_def)
  then show ?thesis
    using makeAPIRequest_with_key [OF assms(1,2), of url meth body] by simp
qed

theorem success_status_returns_json_witness:
  "CLOCKIFY_API_KEY
     (exampleRuntime (Some ''key'')
        (Inr (exampleResponse 204 [] (Inl ''Unexpected end of JSON input'')))) = Some ''key''
   \<and> ''key'' \<noteq> []
   \<and> fetch
        (exampleRuntime (Some ''key'')
           (Inr (exampleResponse 204 [] (Inl ''Unexpected end of JSON input''))))
        (fetchArgument
           (exampleRuntime (Some ''key'')
              (Inr (exampleResponse 204 [] (Inl ''Unexpected end of JSON input''))))
           ''/user'' GET JUndefined)
      = Inr (exampleResponse 204 [] (Inl ''Unexpected end of JSON input''))
   \<and> 200 \<le> resp_status (exampleResponse 204 [] (Inl ''Unexpected end of JSON input''))
   \<and> resp_status (exampleResponse 204 [] (Inl ''Unexpected end of JSON input'')) \<le> 299
   \<and> resp_status (exampleResponse 204 [] (Inl ''Unexpected end of JSON input'')) = 204
   \<and> makeAPIRequest
        (exampleRuntime (Some ''key'')
           (Inr (exampleResponse 204 [] (Inl ''Unexpected end of JSON input''))))
        ''/user'' GET JUndefined
      = ([fetchArgument
            (exampleRuntime (Some ''key'')
               (Inr (exampleResponse 204 [] (Inl ''Unexpected end of JSON input''))))
            ''/user'' GET JUndefined],
         Inr (JObj []))
   \<and> CLOCKIFY_API_KEY
       (exampleRuntime (Some ''key'') (Inr (exampleResponse 200 ''{..}'' (Inr exampleTimeEntry))))
      = Some ''key''
   \<and> fetch
        (exampleRuntime (Some ''key'') (Inr (exampleResponse 200 ''{..}'' (Inr exampleTimeEntry))))
        (fetchArgument
           (exampleRuntime (Some ''key'')
              (Inr (exampleResponse 200 ''{..}'' (Inr exampleTimeEntry))))
           ''/user'' GET JUndefined)
      = Inr (exampleResponse 200 ''{..}'' (Inr exampleTimeEntry))
   \<and> 200 \<le> resp_status (exampleResponse 200 ''{..}'' (Inr exampleTimeEntry))
   \<and> resp_status (exampleResponse 200 ''{..}'' (Inr exampleTimeEntry)) \<le> 299
   \<and> resp_status (exampleResponse 200 ''{..}'' (Inr exampleTimeEntry)) \<noteq> 204
   \<and> resp_json (exampleResponse 200 ''{..}'' (Inr exampleTimeEntry)) = Inr exampleTimeEntry
   \<and> makeAPIRequest
        (exampleRuntime (Some ''key'') (Inr (exampleResponse 200 ''{..}'' (Inr exampleTimeEntry))))
        ''/user'' GET JUndefined
      = ([fetchArgument
            (exampleRuntime (Some ''key'')
               (Inr (exampleResponse 200 ''{..}'' (Inr exampleTimeEntry))))
            ''/user'' GET JUndefined],
         Inr exampleTimeEntry)"
  (is "?a \<and> ?b \<and> ?c \<and> ?d \<and> ?e \<and> ?f \<and> ?g \<and> ?a' \<and> ?c' \<and> ?d' \<and> ?e' \<and> ?f' \<and> ?j' \<and> ?g'")
proof -
  have a: ?a by (simp add: exampleRuntime_def)
  have b: ?b by simp
  have c: ?c by (simp add: exampleRuntime_def)
  have d: ?d by (simp add: exampleResponse_def)
  have e: ?e by (simp add: exampleResponse_def)
  have f: ?f by (simp add: exampleResponse_def)
  have g: ?g
    using success_status_returns_json [OF a b c d e] f by simp
  have a': ?a' by (simp add: exampleRuntime_def)
  have c': ?c' by (simp add: exampleRuntime_def)
  have d': ?d' by (simp add: exampleResponse_def)
  have e': ?e' by (simp add: exampleResponse_def)
  have f': ?f' by (simp add: exampleResponse_def)
  have j': ?j' by (simp add: exampleResponse_def)
  have g': ?g'
    using success_status_returns_json [OF a' b c' d' e', of exampleTimeEntry] f' j' by simp
  from a b c d e f g a' c' d' e' f' j' g' show ?thesis by (intro conjI)
qed

section \<open>The handlers' results\<close>

lemma stringify_defined: "v \<noteq> JUndefined \<Longrightarrow> \<exists>t. stringify p v = Some t"
  by (cases v) simp_all

lemma sendResponse_one_text_item:
  "\<exists>t. sendResponse rt ty v = \<lparr>content = [\<lparr>item_type = ty, item_text = Some t\<rparr>]\<rparr>"
  by (cases v) (simp_all add: sendResponse_def)

lemma timeEntryResult_sent:
  assumes "timeEntryResult rt response = Inr r"
  shows "\<exists>v. r = sendResponse rt ''text'' v"
  using assms unfolding timeEntryResult_def
  by (auto elim!: bindE_Inr)

lemma handlerBody_result_sent:
  assumes "handlerBody rt call = (calls, Inr r)"
  shows "\<exists>v. r = sendResponse rt ''text'' v"
proof (cases call)
  case GetClockifyUser
  with assms show ?thesis
    by (auto simp: getClockifyUserBody_def elim!: andThen_Inr bindE_Inr)
next
  case ListClockifyWorkspaces
  with assms show ?thesis
    by (auto simp: listClockifyWorkspacesBody_def elim!: andThen_Inr bindE_Inr)
next
  case (ListClockifyProjects input)
  with assms show ?thesis
    by (auto simp: listClockifyProjectsBody_def elim!: andThen_Inr bindE_Inr)
next
  case (ListClockifyTasks input)
  with assms show ?thesis
    by (auto simp: listClockifyTasksBody_def elim!: andThen_Inr bindE_Inr)
next
  case (ListClockifyTimeEntries input)
  with assms show ?thesis
    by (auto simp: listClockifyTimeEntriesBody_def elim!: andThen_Inr)
next
  case (CreateClockifyTimeEntry input)
  with assms show ?thesis
    by (auto simp: createClockifyTimeEntryBody_def Let_def
             elim!: beforeCall_Inr andThen_Inr dest: timeEntryResult_sent)
next
  case (UpdateClockifyTimeEntry input)
  with assms show ?thesis
    by (auto simp: updateClockifyTimeEntryBody_def Let_def
             elim!: beforeCall_Inr andThen_Inr dest: timeEntryResult_sent)
next
  case (DeleteClockifyTimeEntry input)
  with assms show ?thesis
    by (auto simp: deleteClockifyTimeEntryBody_def elim!: andThen_Inr)
qed

text \<open>
  C10. Every handler, on every validated input and in every runtime (whatever the
  credential, the network and the service do), returns a result with exactly one content
  item, of type \<open>text\<close>, whose text is a string. \<open>sendResponse\<close> passes a string through
  unchanged and serialises every other value with \<open>JSON.stringify\<close>, which gives a
  string for everything but \<open>undefined\<close> (for which the parameter's default, the empty
  string, stands in).
\<close>

theorem handler_result_one_text_item:
  "(\<exists>calls t. handler rt call =
       (calls, Inr \<lparr>content = [\<lparr>item_type = ''text'', item_text = Some t\<rparr>]\<rparr>))
   \<and> sendResponse rt ''text'' (JStr s) =
       \<lparr>content = [\<lparr>item_type = ''text'', item_text = Some s\<rparr>]\<rparr>
   \<and> (v \<noteq> JUndefined \<and> (\<forall>s'. v \<noteq> JStr s') \<longrightarrow>
        (\<exists>t. stringify (numberToString rt) v = Some t
             \<and> sendResponse rt ''text'' v =
                 \<lparr>content = [\<lparr>item_type = ''text'', item_text = Some t\<rparr>]\<rparr>))"
proof (intro conjI)
  obtain calls r where b: "handlerBody rt call = (calls, r)"
    by (cases "handlerBody rt call")
  show "\<exists>calls t. handler rt call =
          (calls, Inr \<lparr>content = [\<lparr>item_type = ''text'', item_text = Some t\<rparr>]\<rparr>)"
  proof (cases r)
    case (Inl e)
    with b have "handler rt call =
        (calls, Inr \<lparr>content = [\<lparr>item_type = ''text'',
                                  item_text = Some (''Error: '' @ message e)\<rparr>]\<rparr>)"
      by (simp add: handler_def responseWrapper_def sendResponse_string)
    then show ?thesis by blast
  next
    case (Inr x)
    with b obtain v where "x = sendResponse rt ''text'' v"
      using handlerBody_result_sent by blast
    then obtain t where "x = \<lparr>content = [\<lparr>item_type = ''text'', item_text = Some t\<rparr>]\<rparr>"
      using sendResponse_one_text_item [of rt "''text''" v] by auto
    moreover have "handler rt call = (calls, Inr x)"
      using b Inr by (simp add: handler_def responseWrapper_def)
    ultimately show ?thesis by blast
  qed
next
  show "sendResponse rt ''text'' (JStr s) =
          \<lparr>content = [\<lparr>item_type = ''text'', item_text = Some s\<rparr>]\<rparr>"
    by (rule sendResponse_string)
next
  show "v \<noteq> JUndefined \<and> (\<forall>s'. v \<noteq> JStr s') \<longrightarrow>
        (\<exists>t. stringify (numberToString rt) v = Some t
             \<and> sendResponse rt ''text'' v =
                 \<lparr>content = [\<lparr>item_type = ''text'', item_text = Some t\<rparr>]\<rparr>)"
    by (cases v) (simp_all add: sendResponse_def)
qed

theorem handler_result_one_text_item_witness:
  "(\<exists>calls t.
      handler (exampleRuntime (Some ''key'') (Inl ''fetch failed'')) ListClockifyWorkspaces =
        (calls, Inr \<lparr>content = [\<lparr>item_type = ''text'', item_text = Some t\<rparr>]\<rparr>))
   \<and> sendResponse (exampleRuntime (Some ''key'') (Inl ''fetch failed'')) ''text'' (JStr ''done'') =
       \<lparr>content = [\<lparr>item_type = ''text'', item_text = Some ''done''\<rparr>]\<rparr>
   \<and> JArr [exampleTimeEntry] \<noteq> JUndefined
   \<and> (\<forall>s'. JArr [exampleTimeEntry] \<noteq> JStr s')
   \<and> (\<exists>t. stringify (numberToString (exampleRuntime (Some ''key'') (Inl ''fetch failed'')))
              (JArr [exampleTimeEntry]) = Some t
          \<and> sendResponse (exampleRuntime (Some ''key'') (Inl ''fetch failed'')) ''text''
              (JArr [exampleTimeEntry]) =
              \<lparr>content = [\<lparr>item_type = ''text'', item_text = Some t\<rparr>]\<rparr>)"
  using handler_result_one_text_item
    [of "exampleRuntime (Some ''key'') (Inl ''fetch failed'')" ListClockifyWorkspaces
        "''done''" "JArr [exampleTimeEntry]"]
  by simp

lemma makeAPIRequest_ok:
  assumes "CLOCKIFY_API_KEY rt = Some k" and "k \<noteq> []"
    and "fetch rt (fetchArgument rt url meth body) = Inr response"
    and "200 \<le> resp_status response" and "resp_status response \<le> 299"
  shows "makeAPIRequest rt url meth body =
           ([fetchArgument rt url meth body],
            if resp_status response = 204 then Inr (JObj [])
            else case resp_json response of
                   Inl m \<Rightarrow> Inl (Error (''Error making Clockify API request: '' @ m))
                 | Inr v \<Rightarrow> Inr v)"
proof -
  have "ok response"
    using assms(4,5) by (simp add: ok_def)
  then have "readResponse (fetch rt (fetchArgument rt url meth body)) =
               (if resp_status response = 204 then Inr (JObj [])
                else case resp_json response of Inl m \<Rightarrow> Inl (Error m) | Inr v \<Rightarrow> Inr v)"
    using assms(3) by (simp add: readResponse_def)
  then show ?thesis
    using makeAPIRequest_with_key [OF assms(1,2), of url meth body]
    by (simp split: sum.splits)
qed

lemma deleted_message_text:
  "sendResponse rt ''text'' (JObj [(''message'', JStr ''Time entry deleted successfully.'')]) =
     \<lparr>content = [\<lparr>item_type = ''text'',
                  item_text = Some ''{\"message\":\"Time entry deleted successfully.\"}''\<rparr>]\<rparr>"
  by (simp add: sendResponse_def quoteJSONString_def quoteChar_def)

text \<open>
  C9, as the code has it. When the gateway call of a delete succeeds (the status is 204, or
  it is another status from 200 to 299 and the body parses as JSON, to whatever value),
  the tool makes its one \<open>DELETE\<close> request and returns exactly the fixed message: nothing
  of the response is in the result.
\<close>

theorem delete_returns_fixed_message:
  assumes "CLOCKIFY_API_KEY rt = Some k" and "k \<noteq> []"
    and "fetch rt
           (fetchArgument rt
              (''/workspaces/'' @ dt_workspaceId input @ ''/time-entries/''
               @ dt_timeEntryId input) DELETE JUndefined) = Inr response"
    and "200 \<le> resp_status response" and "resp_status response \<le> 299"
    and "resp_status response = 204 \<or> resp_json response = Inr v"
  shows "handler rt (DeleteClockifyTimeEntry input) =
           ([fetchArgument rt
               (''/workspaces/'' @ dt_workspaceId input @ ''/time-entries/''
                @ dt_timeEntryId input) DELETE JUndefined],
            Inr \<lparr>content = [\<lparr>item_type = ''text'',
                   item_text = Some ''{\"message\":\"Time entry deleted successfully.\"}''\<rparr>]\<rparr>)"
proof -
  let ?url = "''/workspaces/'' @ dt_workspaceId input @ ''/time-entries/'' @ dt_timeEntryId input"
  have "\<exists>x. (if resp_status response = 204 then Inr (JObj [])
             else case resp_json response of
                    Inl m \<Rightarrow> Inl (Error (''Error making Clockify API request: '' @ m))
                  | Inr v \<Rightarrow> Inr v) = Inr x"
    using assms(6) by auto
  then obtain x where "makeAPIRequest rt ?url DELETE JUndefined =
                         ([fetchArgument rt ?url DELETE JUndefined], Inr x)"
    unfolding makeAPIRequest_ok [OF assms(1-5)] by blast
  then have "handlerBody rt (DeleteClockifyTimeEntry input) =
               ([fetchArgument rt ?url DELETE JUndefined],
                Inr (sendResponse rt ''text''
                       (JObj [(''message'', JStr ''Time entry deleted successfully.'')])))"
    by (simp add: deleteClockifyTimeEntryBody_def andThen_def bindE_def)
  then show ?thesis
    by (simp add: handler_def responseWrapper_def deleted_message_text)
qed

theorem delete_returns_fixed_message_witness:
  "CLOCKIFY_API_KEY
     (exampleRuntime (Some ''key'') (Inr (exampleResponse 200 ''{..}'' (Inr exampleTimeEntry))))
     = Some ''key''
   \<and> ''key'' \<noteq> []
   \<and> fetch
        (exampleRuntime (Some ''key'') (Inr (exampleResponse 200 ''{..}'' (Inr exampleTimeEntry))))
        (fetchArgument
           (exampleRuntime (Some ''key'')
              (Inr (exampleResponse 200 ''{..}'' (Inr exampleTimeEntry))))
           (''/workspaces/''
            @ dt_workspaceId \<lparr>dt_timeEntryId = ''e1'', dt_workspaceId = ''w1''\<rparr>
            @ ''/time-entries/''
            @ dt_timeEntryId \<lparr>dt_timeEntryId = ''e1'', dt_workspaceId = ''w1''\<rparr>)
           DELETE JUndefined)
      = Inr (exampleResponse 200 ''{..}'' (Inr exampleTimeEntry))
   \<and> 200 \<le> resp_status (exampleResponse 200 ''{..}'' (Inr exampleTimeEntry))
   \<and> resp_status (exampleResponse 200 ''{..}'' (Inr exampleTimeEntry)) \<le> 299
   \<and> resp_json (exampleResponse 200 ''{..}'' (Inr exampleTimeEntry)) = Inr exampleTimeEntry
   \<and> handler
        (exampleRuntime (Some ''key'') (Inr (exampleResponse 200 ''{..}'' (Inr exampleTimeEntry))))
        (DeleteClockifyTimeEntry \<lparr>dt_timeEntryId = ''e1'', dt_workspaceId = ''w1''\<rparr>)
      = ([fetchArgument
            (exampleRuntime (Some ''key'')
               (Inr (exampleResponse 200 ''{..}'' (Inr exampleTimeEntry))))
            (''/workspaces/''
             @ dt_workspaceId \<lparr>dt_timeEntryId = ''e1'', dt_workspaceId = ''w1''\<rparr>
             @ ''/time-entries/''
             @ dt_timeEntryId \<lparr>dt_timeEntryId = ''e1'', dt_workspaceId = ''w1''\<rparr>)
            DELETE JUndefined],
         Inr \<lparr>content = [\<lparr>item_type = ''text'',
                item_text = Some ''{\"message\":\"Time entry deleted successfully.\"}''\<rparr>]\<rparr>)"
  (is "?a \<and> ?b \<and> ?c \<and> ?d \<and> ?e \<and> ?f \<and> ?g")
proof -
  have a: ?a by (simp add: exampleRuntime_def)
  have b: ?b by simp
  have c: ?c by (simp add: exampleRuntime_def)
  have d: ?d by (simp add: exampleResponse_def)
  have e: ?e by (simp add: exampleResponse_def)
  have f: ?f by (simp add: exampleResponse_def)
  have g: ?g
    by (rule delete_returns_fixed_message [OF a b c d e disjI2 [OF f]])
  from a b c d e f g show ?thesis by (intro conjI)
qed

text \<open>
  The claim as stated covers every body that comes with a success status. A status 200
  whose body is not JSON (here the empty body) makes \<open>json()\<close> throw, and the tool
  returns an error text, not the fixed message.
\<close>

theorem delete_unparsable_body_counterexample:
  "200 \<le> resp_status (exampleResponse 200 [] (Inl ''Unexpected end of JSON input''))
   \<and> resp_status (exampleResponse 200 [] (Inl ''Unexpected end of JSON input'')) \<le> 299
   \<and> snd (handler
             (exampleRuntime (Some ''key'')
                (Inr (exampleResponse 200 [] (Inl ''Unexpected end of JSON input''))))
             (DeleteClockifyTimeEntry \<lparr>dt_timeEntryId = ''e1'', dt_workspaceId = ''w1''\<rparr>))
      = Inr \<lparr>content = [\<lparr>item_type = ''text'',
               item_text = Some
                 ''Error: Error making Clockify API request: Unexpected end of JSON input''\<rparr>]\<rparr>"
  by code_simp

section \<open>Creating and updating a time entry\<close>

lemma error_text:
  "sendResponse rt ''text'' (JStr (''Error: '' @ m)) =
     \<lparr>content = [\<lparr>item_type = ''text'', item_text = Some (''Error: '' @ m)\<rparr>]\<rparr>"
  by (rule sendResponse_string)

lemma create_invalid_date:
  assumes "start = None \<or> end = None"
  shows "createClockifyTimeEntryBody rt input start end =
           ([], Inl (Error ''Invalid time value''))"
  using assms
  by (cases start; cases "end")
     (simp_all add: createClockifyTimeEntryBody_def beforeCall_def toISOString_def)

lemma update_invalid_date:
  assumes "start = None \<or> end = None"
  shows "updateClockifyTimeEntryBody rt input start end =
           ([], Inl (Error ''Invalid time value''))"
  using assms
  by (cases start; cases "end")
     (simp_all add: updateClockifyTimeEntryBody_def beforeCall_def toISOString_def)

text \<open>
  C5, as the code has it. When the start or the end string of a create or update does not
  parse to a valid date, \<open>toISOString\<close> throws a range error while the request body is
  built, inside the wrapped body and before the gateway is called: no request is issued,
  and the tool returns the text \<open>Error: Invalid time value\<close>.
\<close>

theorem invalid_date_no_request:
  assumes "(call = CreateClockifyTimeEntry ci
              \<and> (newDate rt (ct_start ci) = None \<or> newDate rt (ct_end ci) = None))
         \<or> (call = UpdateClockifyTimeEntry ui
              \<and> (newDate rt (ut_start ui) = None \<or> newDate rt (ut_end ui) = None))"
  shows "handler rt call =
           ([], Inr \<lparr>content = [\<lparr>item_type = ''text'',
                                  item_text = Some ''Error: Invalid time value''\<rparr>]\<rparr>)"
proof -
  have "handlerBody rt call = ([], Inl (Error ''Invalid time value''))"
    using assms by (auto simp: Let_def create_invalid_date update_invalid_date)
  then show ?thesis
    using error_text [of rt "''Invalid time value''"]
    by (simp add: handler_def responseWrapper_def)
qed

theorem invalid_date_no_request_witness:
  "CreateClockifyTimeEntry (exampleCreateInput ''2024-01-01T09:00:00'' ''17 o clock'')
     = CreateClockifyTimeEntry (exampleCreateInput ''2024-01-01T09:00:00'' ''17 o clock'')
   \<and> newDate (exampleRuntime (Some ''key'')
                (Inr (exampleResponse 200 ''{..}'' (Inr exampleTimeEntry))))
        (ct_end (exampleCreateInput ''2024-01-01T09:00:00'' ''17 o clock'')) = None
   \<and> handler (exampleRuntime (Some ''key'')
                (Inr (exampleResponse 200 ''{..}'' (Inr exampleTimeEntry))))
        (CreateClockifyTimeEntry (exampleCreateInput ''2024-01-01T09:00:00'' ''17 o clock''))
      = ([], Inr \<lparr>content = [\<lparr>item_type = ''text'',
                                item_text = Some ''Error: Invalid time value''\<rparr>]\<rparr>)"
  (is "?a \<and> ?b \<and> ?c")
proof -
  have a: ?a by (rule refl)
  have b: ?b by code_simp
  have c: ?c
    by (rule invalid_date_no_request [OF disjI1 [OF conjI [OF a disjI2 [OF b]]]])
  from a b c show ?thesis by (intro conjI)
qed

text \<open>
  The claim as stated has the malformed payload reach the gateway's request, for the
  service to reject. With a start string that does not parse, no request is made at all,
  though the credential is present and the service would answer.
\<close>

theorem invalid_date_counterexample:
  "newDate exampleService
     (ct_start (exampleCreateInput ''tomorrow'' ''2024-01-01T17:00:00'')) = None
   \<and> handler exampleService
       (CreateClockifyTimeEntry (exampleCreateInput ''tomorrow'' ''2024-01-01T17:00:00''))
     = ([], Inr \<lparr>content = [\<lparr>item_type = ''text'',
                               item_text = Some ''Error: Invalid time value''\<rparr>]\<rparr>)"
  by code_simp

lemma timeEntryResult_fields:
  assumes "timeEntryResult rt response = Inr result"
  shows "\<exists>ti id description start end projectId.
           getProp response ''id'' = Inr id
         \<and> getProp response ''description'' = Inr description
         \<and> getProp response ''timeInterval'' = Inr ti
         \<and> getProp ti ''start'' = Inr start
         \<and> getProp ti ''end'' = Inr end
         \<and> getProp response ''projectId'' = Inr projectId
         \<and> result = sendResponse rt ''text''
                      (JObj [(''id'', id), (''description'', description), (''start'', start),
                             (''end'', end), (''projectId'', projectId)])"
  using assms unfolding timeEntryResult_def
  by (elim bindE_Inr) auto

lemma makeAPIRequest_Inr:
  assumes "makeAPIRequest rt url meth body = (calls, Inr response)"
  shows "calls = [fetchArgument rt url meth body]
       \<and> readResponse (fetch rt (fetchArgument rt url meth body)) = Inr response"
  using assms
  by (auto simp: makeAPIRequest_def Let_def split: if_splits sum.splits)

text \<open>
  C8. When a create or update succeeds (its body returns), the gateway made one request, the
  service's decoded answer \<open>response\<close> has a \<open>timeInterval\<close>, and the tool's result is
  the one text item that serialises the object of exactly the five properties \<open>id\<close>,
  \<open>description\<close>, \<open>start\<close>, \<open>end\<close> and \<open>projectId\<close>: \<open>id\<close>, \<open>description\<close> and
  \<open>projectId\<close> read from the top level of the answer, \<open>start\<close> and \<open>end\<close> from its
  \<open>timeInterval\<close>.
\<close>

theorem time_entry_result_shape:
  assumes "call = CreateClockifyTimeEntry ci \<or> call = UpdateClockifyTimeEntry ui"
    and "handlerBody rt call = (calls, Inr result)"
  shows "handler rt call = (calls, Inr result)
       \<and> (\<exists>req response ti id description start end projectId.
             calls = [req]
           \<and> readResponse (fetch rt req) = Inr response
           \<and> getProp response ''id'' = Inr id
           \<and> getProp response ''description'' = Inr description
           \<and> getProp response ''timeInterval'' = Inr ti
           \<and> getProp ti ''start'' = Inr start
           \<and> getProp ti ''end'' = Inr end
           \<and> getProp response ''projectId'' = Inr projectId
           \<and> result =
               \<lparr>content =
                  [\<lparr>item_type = ''text'',
                    item_text =
                      stringify (numberToString rt)
                        (JObj [(''id'', id), (''description'', description), (''start'', start),
                               (''end'', end), (''projectId'', projectId)])\<rparr>]\<rparr>)"
proof
  show "handler rt call = (calls, Inr result)"
    using assms(2) by (simp add: handler_def responseWrapper_def)
next
  from assms(1) obtain url meth body response where
    g: "makeAPIRequest rt url meth body = (calls, Inr response)"
    and t: "timeEntryResult rt response = Inr result"
  proof
    assume c: "call = CreateClockifyTimeEntry ci"
    with assms(2) that show ?thesis
      by (auto simp: createClockifyTimeEntryBody_def Let_def
               elim!: beforeCall_Inr andThen_Inr)
  next
    assume c: "call = UpdateClockifyTimeEntry ui"
    with assms(2) that show ?thesis
      by (auto simp: updateClockifyTimeEntryBody_def Let_def
               elim!: beforeCall_Inr andThen_Inr)
  qed
  have s: "sendResponse rt ''text'' (JObj kvs) =
             \<lparr>content = [\<lparr>item_type = ''text'',
                          item_text = stringify (numberToString rt) (JObj kvs)\<rparr>]\<rparr>" for kvs
    by (simp add: sendResponse_def)
  from makeAPIRequest_Inr [OF g] timeEntryResult_fields [OF t]
  show "\<exists>req response ti id description start end projectId.
             calls = [req]
           \<and> readResponse (fetch rt req) = Inr response
           \<and> getProp response ''id'' = Inr id
           \<and> getProp response ''description'' = Inr description
           \<and> getProp response ''timeInterval'' = Inr ti
           \<and> getProp ti ''start'' = Inr start
           \<and> getProp ti ''end'' = Inr end
           \<and> getProp response ''projectId'' = Inr projectId
           \<and> result =
               \<lparr>content =
                  [\<lparr>item_type = ''text'',
                    item_text =
                      stringify (numberToString rt)
                        (JObj [(''id'', id), (''description'', description), (''start'', start),
                               (''end'', end), (''projectId'', projectId)])\<rparr>]\<rparr>"
    unfolding s by blast
qed

theorem time_entry_result_shape_witness:
  "handlerBody exampleService
     (CreateClockifyTimeEntry (exampleCreateInput ''2024-01-01T09:00:00'' ''2024-01-01T17:00:00''))
   = ([fetchArgument exampleService ''/workspaces/w1/time-entries'' POST
         (JObj [(''billable'', JBool True), (''description'', JStr ''Research''),
                (''start'', JStr ''2024-01-01T09:00:00.000Z''),
                (''end'', JStr ''2024-01-01T17:00:00.000Z''),
                (''projectId'', JStr ''p1'')])],
      Inr \<lparr>content =
             [\<lparr>item_type = ''text'',
               item_text = Some (''{\"id\":\"e1\",\"description\":\"Research\",''
                                 @ ''\"start\":\"2024-01-01T09:00:00Z\",''
                                 @ ''\"end\":\"2024-01-01T17:00:00Z\",\"projectId\":\"p1\"}'')\<rparr>]\<rparr>)
   \<and> handler exampleService
     (CreateClockifyTimeEntry (exampleCreateInput ''2024-01-01T09:00:00'' ''2024-01-01T17:00:00''))
   = ([fetchArgument exampleService ''/workspaces/w1/time-entries'' POST
         (JObj [(''billable'', JBool True), (''description'', JStr ''Research''),
                (''start'', JStr ''2024-01-01T09:00:00.000Z''),
                (''end'', JStr ''2024-01-01T17:00:00.000Z''),
                (''projectId'', JStr ''p1'')])],
      Inr \<lparr>content =
             [\<lparr>item_type = ''text'',
               item_text = Some (''{\"id\":\"e1\",\"description\":\"Research\",''
                                 @ ''\"start\":\"2024-01-01T09:00:00Z\",''
                                 @ ''\"end\":\"2024-01-01T17:00:00Z\",\"projectId\":\"p1\"}'')\<rparr>]\<rparr>)"
  (is "?b \<and> ?h")
proof -
  have b: ?b by code_simp
  have h: ?h
    using time_entry_result_shape [OF disjI1 [OF refl] b] by (rule conjunct1)
  from b h show ?thesis by (intro conjI)
qed

section \<open>Dates sent to the service\<close>

subsection \<open>The calendar\<close>

lemma div_bounds:
  fixes x k :: int
  assumes "0 < k"
  shows "k * (x div k) \<le> x" and "x < k * (x div k) + k"
  using pos_mod_sign [OF assms, of x] pos_mod_bound [OF assms, of x]
    mult_div_mod_eq [of k x]
  by linarith+

lemma div_block:
  fixes a b k :: int
  assumes "0 \<le> b" and "b < k"
  shows "(k * a + b) div k = a"
proof -
  have "k \<noteq> 0" using assms by simp
  then have "(k * a + b) div k = a + b div k" by simp
  with assms show ?thesis by (simp add: div_pos_pos_trivial)
qed

lemma div_succ:
  fixes x k :: int
  assumes "1 < k"
  shows "(x + 1) div k = x div k + (if (x + 1) mod k = 0 then 1 else 0)"
proof -
  define a b where "a = x div k" and "b = x mod k"
  have x: "x = k * a + b" and b: "0 \<le> b" "b < k"
    using assms by (simp_all add: a_def b_def)
  show ?thesis
  proof (cases "b + 1 = k")
    case True
    then have "x + 1 = k * (a + 1) + 0"
      using x by (simp add: algebra_simps)
    then have "(x + 1) div k = a + 1" and "(x + 1) mod k = 0"
      using assms by simp_all
    then show ?thesis by (simp add: a_def)
  next
    case False
    then have r: "0 \<le> b + 1" "b + 1 < k" using b by simp_all
    have e: "x + 1 = k * a + (b + 1)" using x by simp
    have "(x + 1) div k = a"
      unfolding e using r by (rule div_block)
    moreover have "(x + 1) mod k = b + 1"
      unfolding e using r by (simp add: mod_pos_pos_trivial)
    ultimately show ?thesis using b assms by (simp add: a_def)
  qed
qed

lemma mod_shift:
  fixes y k j :: int
  shows "(y - k * j) mod k = y mod k"
  using mod_mult_self2 [of y k "- j"] by simp

lemma dayFromYear_step:
  "dayFromYear (y + 1) = dayFromYear y + (if inLeapYear y then 366 else 365)"
proof -
  have a: "(y + 1 - 1969) div 4 = (y - 1969) div 4 + (if y mod 4 = 0 then 1 else 0)"
  proof -
    have "(y - 1969 + 1) mod 4 = y mod 4"
      using mod_shift [of y 4 492] by simp
    with div_succ [of 4 "y - 1969"] show ?thesis by (simp add: algebra_simps)
  qed
  have b: "(y + 1 - 1901) div 100 = (y - 1901) div 100 + (if y mod 100 = 0 then 1 else 0)"
  proof -
    have "(y - 1901 + 1) mod 100 = y mod 100"
      using mod_shift [of y 100 19] by simp
    with div_succ [of 100 "y - 1901"] show ?thesis by (simp add: algebra_simps)
  qed
  have c: "(y + 1 - 1601) div 400 = (y - 1601) div 400 + (if y mod 400 = 0 then 1 else 0)"
  proof -
    have "(y - 1601 + 1) mod 400 = y mod 400"
      using mod_shift [of y 400 4] by simp
    with div_succ [of 400 "y - 1601"] show ?thesis by (simp add: algebra_simps)
  qed
  have d: "y mod 4 = 0" if "y mod 100 = 0"
  proof -
    have "y mod 100 mod 4 = y mod 4" by (rule mod_mod_cancel) simp
    with that show ?thesis by simp
  qed
  have e: "y mod 100 = 0" if "y mod 400 = 0"
  proof -
    have "y mod 400 mod 100 = y mod 100" by (rule mod_mod_cancel) simp
    with that show ?thesis by simp
  qed
  have "dayFromYear (y + 1) =
          365 * (y + 1 - 1970) + (y + 1 - 1969) div 4 - (y + 1 - 1901) div 100
          + (y + 1 - 1601) div 400"
    by (simp add: dayFromYear_def)
  also have "\<dots> = dayFromYear y + 365 + (if y mod 4 = 0 then 1 else 0)
                    - (if y mod 100 = 0 then 1 else 0) + (if y mod 400 = 0 then 1 else 0)"
    unfolding a b c dayFromYear_def by (simp only: algebra_simps)
  also have "\<dots> = dayFromYear y + (if inLeapYear y then 366 else 365)"
    using d e by (cases "y mod 4 = 0"; cases "y mod 100 = 0"; cases "y mod 400 = 0")
                 (simp_all add: inLeapYear_def)
  finally show ?thesis .
qed

lemma dayFromYear_decomposed:
  assumes "0 \<le> c" "c \<le> 3" "0 \<le> q" "q \<le> 24" "0 \<le> r" "r \<le> 3"
  shows "dayFromYear (1601 + 400 * e + 100 * c + 4 * q + r) =
           146097 * e + 36524 * c + 1461 * q + 365 * r - 134774"
proof -
  let ?y = "1601 + 400 * e + 100 * c + 4 * q + r"
  have "?y - 1969 = 4 * (100 * e + 25 * c + q - 92) + r" by simp
  then have a: "(?y - 1969) div 4 = 100 * e + 25 * c + q - 92"
    using div_block [of r 4 "100 * e + 25 * c + q - 92"] assms by simp
  have "?y - 1901 = 100 * (4 * e + c - 3) + (4 * q + r)" by simp
  then have b: "(?y - 1901) div 100 = 4 * e + c - 3"
    using div_block [of "4 * q + r" 100 "4 * e + c - 3"] assms by simp
  have "?y - 1601 = 400 * e + (100 * c + 4 * q + r)" by simp
  then have c: "(?y - 1601) div 400 = e"
    using div_block [of "100 * c + 4 * q + r" 400 e] assms by simp
  show ?thesis
    unfolding dayFromYear_def a b c by simp
qed

lemma leap_decomposed:
  assumes "0 \<le> c" "c \<le> 3" "0 \<le> q" "q \<le> 24"
  shows "inLeapYear (1601 + 400 * e + 100 * c + 4 * q + 3) = (q < 24 \<or> c = 3)"
proof -
  let ?y = "1601 + 400 * e + 100 * c + 4 * q + 3"
  have "?y = 4 * (400 + 100 * e + 25 * c + q + 1) + 0" by simp
  then have a: "?y mod 4 = 0"
    by (metis add.right_neutral mod_mult_self1_is_0)
  have "?y = 100 * (16 + 4 * e + c) + (4 * q + 4)" by simp
  then have "?y mod 100 = (4 * q + 4) mod 100"
    by (metis mod_mult_self4)
  then have b: "?y mod 100 = 0 \<longleftrightarrow> q = 24"
    using assms(3,4) by (cases "q = 24") (simp_all add: mod_pos_pos_trivial)
  have "1601 + 400 * e + 100 * c + 4 * 24 + 3 = 400 * (4 + e) + (100 * c + 100)" by simp
  then have "(1601 + 400 * e + 100 * c + 4 * 24 + 3) mod 400 = (100 * c + 100) mod 400"
    by (metis mod_mult_self4)
  then have c: "(1601 + 400 * e + 100 * c + 4 * 24 + 3) mod 400 = 0 \<longleftrightarrow> c = 3"
    using assms(1,2) by (cases "c = 3") (simp_all add: mod_pos_pos_trivial)
  show ?thesis
    unfolding inLeapYear_def using a b c assms by (cases "q = 24") auto
qed

text \<open>
  The computation of the year splits the day number into a 400-year era, a century, a
  4-year group, a year and the day within that year.
\<close>

lemma yearFromDay_decomposition:
  obtains e c q r n where
    "yearFromDay d = 1601 + 400 * e + 100 * c + 4 * q + r"
    and "e = (d + 134774) div 146097"
    and "0 \<le> c" and "c \<le> 3" and "0 \<le> q" and "q \<le> 24" and "0 \<le> r" and "r \<le> 3"
    and "d + 134774 = 146097 * e + 36524 * c + 1461 * q + 365 * r + n"
    and "0 \<le> n" and "n < 366" and "n = 365 \<longrightarrow> r = 3 \<and> (q < 24 \<or> c = 3)"
proof -
  define z where "z = d + 134774"
  define e where "e = z div 146097"
  define doe where "doe = z mod 146097"
  define k where "k = doe div 36524"
  define c where "c = min 3 k"
  define doc where "doc = doe - 36524 * c"
  define q where "q = doc div 1461"
  define doq where "doq = doc - 1461 * q"
  define j where "j = doq div 365"
  define r where "r = min 3 j"
  define n where "n = doq - 365 * r"
  have y: "yearFromDay d = 1601 + 400 * e + 100 * c + 4 * q + r"
    unfolding yearFromDay_def Let_def r_def j_def doq_def q_def doc_def c_def k_def doe_def
      e_def z_def
    by (rule refl)
  have doe: "0 \<le> doe" "doe < 146097" "z = 146097 * e + doe"
    by (simp_all add: doe_def e_def)
  have k: "36524 * k \<le> doe" "doe < 36524 * k + 36524"
    unfolding k_def by (rule div_bounds; simp)+
  have c: "0 \<le> c" "c \<le> 3"
    using k doe by (simp_all add: c_def)
  have doc: "0 \<le> doc" "doc \<le> 36524" "c < 3 \<longrightarrow> doc < 36524"
    using k doe by (auto simp: doc_def c_def min_def)
  have q: "1461 * q \<le> doc" "doc < 1461 * q + 1461"
    unfolding q_def by (rule div_bounds; simp)+
  have q': "0 \<le> q" "q \<le> 24"
    using q doc by linarith+
  have doq: "0 \<le> doq" "doq \<le> 1460" "q = 24 \<and> c < 3 \<longrightarrow> doq < 1460"
    using q doc by (auto simp: doq_def)
  have j: "365 * j \<le> doq" "doq < 365 * j + 365"
    unfolding j_def by (rule div_bounds; simp)+
  have r: "0 \<le> r" "r \<le> 3"
    using j doq by (simp_all add: r_def)
  have n: "0 \<le> n" "n < 366" "n = 365 \<longrightarrow> r = 3 \<and> (q < 24 \<or> c = 3)"
    using j doq q' c by (auto simp: n_def r_def min_def)
  have s: "d + 134774 = 146097 * e + 36524 * c + 1461 * q + 365 * r + n"
    using doe(3) by (simp add: z_def n_def doq_def doc_def)
  show thesis
    using that [OF y _ c q' r s n] by (simp add: e_def z_def)
qed

text \<open>
  The year computed is the year of the language's definition: the one that starts on or
  before the day and whose successor starts after it.
\<close>

lemma yearFromDay_bounds:
  shows "dayFromYear (yearFromDay d) \<le> d" and "d < dayFromYear (yearFromDay d + 1)"
  and "d - dayFromYear (yearFromDay d) < (if inLeapYear (yearFromDay d) then 366 else 365)"
proof -
  obtain e c q r n where
    y: "yearFromDay d = 1601 + 400 * e + 100 * c + 4 * q + r"
    and c: "0 \<le> c" "c \<le> 3" and q: "0 \<le> q" "q \<le> 24" and r: "0 \<le> r" "r \<le> 3"
    and s: "d + 134774 = 146097 * e + 36524 * c + 1461 * q + 365 * r + n"
    and n: "0 \<le> n" "n < 366" "n = 365 \<longrightarrow> r = 3 \<and> (q < 24 \<or> c = 3)"
    by (rule yearFromDay_decomposition [of d])
  have dy: "dayFromYear (yearFromDay d) = d - n"
    unfolding y dayFromYear_decomposed [OF c q r] using s by simp
  show "dayFromYear (yearFromDay d) \<le> d"
    using dy n by simp
  have l: "n = 365 \<longrightarrow> inLeapYear (yearFromDay d)"
    using n(3) leap_decomposed [OF c q, of e] y by auto
  then show b: "d - dayFromYear (yearFromDay d) < (if inLeapYear (yearFromDay d) then 366 else 365)"
    using dy n by auto
  then show "d < dayFromYear (yearFromDay d + 1)"
    unfolding dayFromYear_step by (simp split: if_splits)
qed

lemma yearFromDay_range:
  assumes "- 100000000 \<le> d" and "d \<le> 100000000"
  shows "- 271821 \<le> yearFromDay d" and "yearFromDay d \<le> 275760"
proof -
  obtain e c q r n where
    y: "yearFromDay d = 1601 + 400 * e + 100 * c + 4 * q + r"
    and e: "e = (d + 134774) div 146097"
    and c: "0 \<le> c" "c \<le> 3" and q: "0 \<le> q" "q \<le> 24" and r: "0 \<le> r" "r \<le> 3"
    and s: "d + 134774 = 146097 * e + 36524 * c + 1461 * q + 365 * r + n"
    and n: "0 \<le> n" "n < 366"
    by (rule yearFromDay_decomposition [of d])
  have "(- 99865226) div 146097 \<le> e"
    unfolding e using assms(1) by (intro zdiv_mono1) simp_all
  then have lo: "- 684 \<le> e" by simp
  have "e \<le> 100134774 div 146097"
    unfolding e using assms(2) by (intro zdiv_mono1) simp_all
  then have hi: "e \<le> 685" by simp
  show "- 271821 \<le> yearFromDay d"
  proof (cases "e = - 684")
    case True
    with s assms(1) c q r n show ?thesis unfolding y by linarith
  next
    case False
    with lo c q r show ?thesis unfolding y by linarith
  qed
  show "yearFromDay d \<le> 275760"
  proof (cases "e = 685")
    case True
    with s assms(2) c q r n show ?thesis unfolding y by linarith
  next
    case False
    with hi c q r show ?thesis unfolding y by linarith
  qed
qed

lemma month_and_date:
  assumes "0 \<le> n" and "n < (if leap then 366 else 365)"
  shows "0 \<le> monthFromDayInYear leap n" and "monthFromDayInYear leap n \<le> 11"
    and "1 \<le> n - daysBeforeMonth leap (monthFromDayInYear leap n) + 1"
    and "n - daysBeforeMonth leap (monthFromDayInYear leap n) + 1
           \<le> daysInMonth leap (monthFromDayInYear leap n)"
  using assms
  by (cases leap;
      simp add: monthFromDayInYear_def daysBeforeMonth_def daysInMonth_def Let_def)+

lemma time_of_day:
  fixes tod :: int
  assumes "0 \<le> tod" and "tod < 86400000"
  shows "0 \<le> tod div 3600000" and "tod div 3600000 \<le> 23"
    and "0 \<le> tod div 60000 mod 60" and "tod div 60000 mod 60 \<le> 59"
    and "0 \<le> tod div 1000 mod 60" and "tod div 1000 mod 60 \<le> 59"
    and "0 \<le> tod mod 1000" and "tod mod 1000 \<le> 999"
    and "tod div 3600000 * 3600000 + tod div 60000 mod 60 * 60000
           + tod div 1000 mod 60 * 1000 + tod mod 1000 = tod"
proof -
  show "0 \<le> tod div 3600000"
    using assms(1) by (simp add: pos_imp_zdiv_nonneg_iff)
  have "3600000 * (tod div 3600000) \<le> tod"
    by (rule div_bounds) simp
  with assms(2) show "tod div 3600000 \<le> 23" by linarith
  show "0 \<le> tod div 60000 mod 60" "0 \<le> tod div 1000 mod 60" "0 \<le> tod mod 1000"
    by simp_all
  have "tod div 60000 mod 60 < 60" "tod div 1000 mod 60 < 60" "tod mod 1000 < 1000"
    by simp_all
  then show "tod div 60000 mod 60 \<le> 59" "tod div 1000 mod 60 \<le> 59" "tod mod 1000 \<le> 999"
    by linarith+
  have a: "tod = 1000 * (tod div 1000) + tod mod 1000" by simp
  have b: "tod div 1000 = 60 * (tod div 1000 div 60) + tod div 1000 mod 60" by simp
  have c: "tod div 60000 = 60 * (tod div 60000 div 60) + tod div 60000 mod 60" by simp
  have d: "tod div 1000 div 60 = tod div 60000"
    using zdiv_zmult2_eq [of 60 tod 1000] by simp
  have e: "tod div 60000 div 60 = tod div 3600000"
    using zdiv_zmult2_eq [of 60 tod 60000] by simp
  show "tod div 3600000 * 3600000 + tod div 60000 mod 60 * 60000
           + tod div 1000 mod 60 * 1000 + tod mod 1000 = tod"
    using a b c d e by linarith
qed

lemma digit_not_sign:
  assumes "isDigit c"
  shows "c \<noteq> CHR ''+''" and "c \<noteq> CHR ''-''"
  using assms by (auto simp: isDigit_def)

lemma takeYear_yearString:
  assumes "- 1000000 < y" and "y < 1000000"
  shows "takeYear (yearString y @ rest) = Some (y, rest)"
proof -
  consider "0 \<le> y \<and> y \<le> 9999" | "y < 0" | "9999 < y" by linarith
  then show ?thesis
  proof cases
    case 1
    then have b: "nat y < 10 ^ 4" by (simp; linarith)
    obtain c cs where z: "zeroPad 4 (nat y) = c # cs" and c: "isDigit c"
      using zeroPad_first_digit [OF b] by auto
    have "takeYear (zeroPad 4 (nat y) @ rest) = takeDigits 4 (zeroPad 4 (nat y) @ rest)"
      unfolding z using digit_not_sign [OF c] by (simp add: takeYear_def)
    with 1 show ?thesis
      by (simp add: yearString_def takeDigits_zeroPad [OF b])
  next
    case 2
    define a where "a = nat \<bar>y\<bar>"
    have b: "a < 10 ^ 6"
      using assms 2 unfolding a_def by (simp; linarith)
    have v: "int a = - y" "int a \<noteq> 0"
      using 2 by (simp_all add: a_def)
    have s: "yearString y = CHR ''-'' # zeroPad 6 a"
      using 2 by (simp add: yearString_def a_def)
    show ?thesis
      unfolding s using 2 by (simp add: takeYear_def takeDigits_zeroPad [OF b] v)
  next
    case 3
    define a where "a = nat \<bar>y\<bar>"
    have b: "a < 10 ^ 6"
      using assms 3 unfolding a_def by (simp; linarith)
    have v: "int a = y"
      using 3 by (simp add: a_def)
    have s: "yearString y = CHR ''+'' # zeroPad 6 a"
      using 3 by (simp add: yearString_def a_def)
    show ?thesis
      unfolding s by (simp add: takeYear_def takeDigits_zeroPad [OF b] v)
  qed
qed

lemma read_formatted:
  assumes "- 1000000 < y" and "y < 1000000"
    and "mo < 100" and "d < 100" and "h < 100" and "mi < 100" and "s < 100" and "ms < 1000"
  shows "instantOfUTCString
           (yearString y @ ''-'' @ zeroPad 2 mo @ ''-'' @ zeroPad 2 d @ ''T'' @ zeroPad 2 h
            @ '':'' @ zeroPad 2 mi @ '':'' @ zeroPad 2 s @ ''.'' @ zeroPad 3 ms @ ''Z'')
         = makeDate y (int mo) (int d) (int h) (int mi) (int s) (int ms)"
proof -
  have two: "takeDigits 2 (zeroPad 2 k @ rest) = Some (int k, rest)" if "k < 100" for k rest
    using that by (intro takeDigits_zeroPad) simp_all
  have three: "takeDigits 3 (zeroPad 3 k @ rest) = Some (int k, rest)" if "k < 1000" for k rest
    using that by (intro takeDigits_zeroPad) simp_all
  show ?thesis
    unfolding instantOfUTCString_def
    by (simp add: takeYear_yearString [OF assms(1,2)] expect_next two three assms)
qed

lemma daysInMonth_le: "daysInMonth leap m \<le> 31"
  by (simp add: daysInMonth_def)

text \<open>
  Every time value in range is the instant that its \<open>toISOString\<close> string denotes.
\<close>

lemma isoString_denotes:
  assumes "\<bar>t\<bar> \<le> maxTimeValue"
  shows "instantOfUTCString (isoString t) = Some t"
proof -
  define day where "day = t div msPerDay"
  define tod where "tod = t mod msPerDay"
  define y where "y = yearFromDay day"
  define n where "n = day - dayFromYear y"
  define leap where "leap = inLeapYear y"
  define m where "m = monthFromDayInYear leap n"
  define dt where "dt = n - daysBeforeMonth leap m + 1"
  define h where "h = tod div 3600000"
  define mi where "mi = tod div 60000 mod 60"
  define s where "s = tod div 1000 mod 60"
  define ms where "ms = tod mod 1000"
  have t: "t = day * msPerDay + tod"
    by (simp add: day_def tod_def)
  have tod: "0 \<le> tod" "tod < 86400000"
    by (simp_all add: tod_def msPerDay_def)
  have "(- 8640000000000000) div 86400000 \<le> day"
    unfolding day_def msPerDay_def using assms
    by (intro zdiv_mono1) (simp_all add: maxTimeValue_def)
  moreover have "day \<le> 8640000000000000 div 86400000"
    unfolding day_def msPerDay_def using assms
    by (intro zdiv_mono1) (simp_all add: maxTimeValue_def)
  ultimately have day: "- 100000000 \<le> day" "day \<le> 100000000"
    by simp_all
  have yr: "- 1000000 < y" "y < 1000000"
    using yearFromDay_range [OF day] by (simp_all add: y_def)
  have n: "0 \<le> n" "n < (if leap then 366 else 365)"
    using yearFromDay_bounds(1,3) [of day] by (simp_all add: n_def y_def leap_def)
  have m: "0 \<le> m" "m \<le> 11" and dt: "1 \<le> dt" "dt \<le> daysInMonth leap m"
    using month_and_date [OF n] by (simp_all add: m_def dt_def)
  have dt': "dt \<le> 31"
    using dt(2) daysInMonth_le [of leap m] by linarith
  have td: "0 \<le> h" "h \<le> 23" "0 \<le> mi" "mi \<le> 59" "0 \<le> s" "s \<le> 59" "0 \<le> ms" "ms \<le> 999"
    and sum: "h * 3600000 + mi * 60000 + s * 1000 + ms = tod"
    unfolding h_def mi_def s_def ms_def by (rule time_of_day [OF tod])+
  have iso: "isoString t =
               yearString y @ ''-'' @ zeroPad 2 (nat (m + 1)) @ ''-'' @ zeroPad 2 (nat dt)
               @ ''T'' @ zeroPad 2 (nat h) @ '':'' @ zeroPad 2 (nat mi)
               @ '':'' @ zeroPad 2 (nat s) @ ''.'' @ zeroPad 3 (nat ms) @ ''Z''"
    unfolding isoString_def Let_def ms_def s_def mi_def h_def dt_def m_def leap_def n_def y_def
      tod_def day_def
    by (rule refl)
  have "instantOfUTCString (isoString t) =
          makeDate y (int (nat (m + 1))) (int (nat dt)) (int (nat h)) (int (nat mi))
            (int (nat s)) (int (nat ms))"
    unfolding iso using yr m dt' td by (intro read_formatted) linarith+
  also have "\<dots> = makeDate y (m + 1) dt h mi s ms"
    using m dt td by simp
  also have "\<dots> = timeClip ((dayFromYear y + daysBeforeMonth leap m + dt - 1) * msPerDay
                             + h * 3600000 + mi * 60000 + s * 1000 + ms)"
    using m dt td by (simp add: makeDate_def leap_def)
  also have "(dayFromYear y + daysBeforeMonth leap m + dt - 1) * msPerDay
               + h * 3600000 + mi * 60000 + s * 1000 + ms = t"
    using sum by (simp add: t dt_def n_def)
  also have "timeClip t = Some t"
    using assms by (simp add: timeClip_def)
  finally show ?thesis .
qed

lemma newDate_in_range:
  assumes "newDate rt s = Some t"
  shows "\<bar>t\<bar> \<le> maxTimeValue"
  using assms by (auto simp: newDate_def timeClip_def split: option.splits if_splits)

lemma handler_calls: "fst (handler rt call) = fst (handlerBody rt call)"
  by (simp add: handler_def responseWrapper_def split: prod.splits sum.splits)

lemma requestBody_object:
  "req_body (fetchArgument rt url meth (JObj kvs)) = stringify (numberToString rt) (JObj kvs)"
  by (simp add: fetchArgument_def)

text \<open>
  C6. When the start and end strings of a create or update parse (to the time values
  \<open>ts\<close> and \<open>te\<close>, the instants the engine reads from the caller's local-time strings)
  and the credential is present, the tool makes one request; its body is the serialised
  object whose \<open>start\<close> and \<open>end\<close> are the \<open>toISOString\<close> strings of the two dates,
  and these strings, read as UTC date-times, denote exactly \<open>ts\<close> and \<open>te\<close>.
\<close>

theorem dates_sent_as_utc_instants:
  assumes "CLOCKIFY_API_KEY rt = Some k" and "k \<noteq> []"
    and "(call = CreateClockifyTimeEntry ci
            \<and> newDate rt (ct_start ci) = Some ts \<and> newDate rt (ct_end ci) = Some te)
       \<or> (call = UpdateClockifyTimeEntry ui
            \<and> newDate rt (ut_start ui) = Some ts \<and> newDate rt (ut_end ui) = Some te)"
  shows "\<exists>req body s e.
           fst (handler rt call) = [req]
         \<and> req_body req = stringify (numberToString rt) (JObj body)
         \<and> map_of body ''start'' = Some (JStr s)
         \<and> map_of body ''end'' = Some (JStr e)
         \<and> s = isoString ts \<and> e = isoString te
         \<and> instantOfUTCString s = Some ts
         \<and> instantOfUTCString e = Some te"
proof -
  have ts: "instantOfUTCString (isoString ts) = Some ts"
    and te: "instantOfUTCString (isoString te) = Some te"
    using assms(3) by (auto intro!: isoString_denotes dest: newDate_in_range)
  from assms(3) show ?thesis
  proof
    assume a: "call = CreateClockifyTimeEntry ci
                 \<and> newDate rt (ct_start ci) = Some ts \<and> newDate rt (ct_end ci) = Some te"
    let ?body = "[(''billable'', JBool (ct_billable ci)),
                  (''description'', JStr (ct_description ci)),
                  (''start'', JStr (isoString ts)), (''end'', JStr (isoString te)),
                  (''projectId'', JStr (ct_projectId ci))]"
    let ?req = "fetchArgument rt (''/workspaces/'' @ ct_workspaceId ci @ ''/time-entries'')
                  POST (JObj ?body)"
    have "fst (handler rt call) = [?req]"
      unfolding handler_calls using a
      by (simp add: createClockifyTimeEntryBody_def beforeCall_def toISOString_def andThen_def
                    makeAPIRequest_with_key [OF assms(1,2)])
    moreover have "req_body ?req = stringify (numberToString rt) (JObj ?body)"
      by (rule requestBody_object)
    moreover have "map_of ?body ''start'' = Some (JStr (isoString ts))"
      and "map_of ?body ''end'' = Some (JStr (isoString te))"
      by simp_all
    ultimately show ?thesis using ts te by blast
  next
    assume a: "call = UpdateClockifyTimeEntry ui
                 \<and> newDate rt (ut_start ui) = Some ts \<and> newDate rt (ut_end ui) = Some te"
    let ?body = "[(''billable'', JBool (ut_billable ui)),
                  (''description'', JStr (ut_description ui)),
                  (''start'', JStr (isoString ts)), (''end'', JStr (isoString te)),
                  (''projectId'', JStr (ut_projectId ui))]"
    let ?req = "fetchArgument rt
                  (''/workspaces/'' @ ut_workspaceId ui @ ''/time-entries/'' @ ut_timeEntryId ui)
                  PUT (JObj ?body)"
    have "fst (handler rt call) = [?req]"
      unfolding handler_calls using a
      by (simp add: updateClockifyTimeEntryBody_def beforeCall_def toISOString_def andThen_def
                    makeAPIRequest_with_key [OF assms(1,2)])
    moreover have "req_body ?req = stringify (numberToString rt) (JObj ?body)"
      by (rule requestBody_object)
    moreover have "map_of ?body ''start'' = Some (JStr (isoString ts))"
      and "map_of ?body ''end'' = Some (JStr (isoString te))"
      by simp_all
    ultimately show ?thesis using ts te by blast
  qed
qed


theorem dates_sent_as_utc_instants_witness:
  "CLOCKIFY_API_KEY exampleService = Some ''key''
   \<and> ''key'' \<noteq> []
   \<and> newDate exampleService
         (ct_start (exampleCreateInput ''2024-01-01T09:00:00'' ''2024-01-01T17:00:00''))
       = Some 1704099600000
   \<and> newDate exampleService
         (ct_end (exampleCreateInput ''2024-01-01T09:00:00'' ''2024-01-01T17:00:00''))
       = Some 1704128400000
   \<and> (\<exists>req body s e.
         fst (handler exampleService
                (CreateClockifyTimeEntry
                   (exampleCreateInput ''2024-01-01T09:00:00'' ''2024-01-01T17:00:00'')))
           = [req]
       \<and> req_body req = stringify (numberToString exampleService) (JObj body)
       \<and> map_of body ''start'' = Some (JStr s)
       \<and> map_of body ''end'' = Some (JStr e)
       \<and> s = isoString 1704099600000 \<and> e = isoString 1704128400000
       \<and> instantOfUTCString s = Some 1704099600000
       \<and> instantOfUTCString e = Some 1704128400000)
   \<and> isoString 1704099600000 = ''2024-01-01T09:00:00.000Z''
   \<and> isoString 1704128400000 = ''2024-01-01T17:00:00.000Z''"
  (is "?a \<and> ?b \<and> ?c \<and> ?d \<and> ?e \<and> ?f \<and> ?g")
proof -
  have a: ?a by (simp add: exampleService_def exampleRuntime_def)
  have b: ?b by simp
  have c: ?c by code_simp
  have d: ?d by code_simp
  have e: ?e
    by (rule dates_sent_as_utc_instants [OF a b disjI1 [OF conjI [OF refl conjI [OF c d]]]])
  have f: ?f by code_simp
  have g: ?g by code_simp
  from a b c d e f g show ?thesis by (intro conjI)
qed

section \<open>Validation before dispatch\<close>

lemma validate_reports:
  assumes "(p, z) \<in> set schema" and "parseValue z (argument arguments p) = Inl pr"
  shows "\<exists>issues. validate schema arguments = Inl issues \<and> (p, pr) \<in> set issues"
  using assms
proof (induction schema)
  case Nil
  then show ?case by simp
next
  case (Cons a schema)
  obtain q y where a: "a = (q, y)" by (cases a)
  show ?case
  proof (cases "(p, z) = (q, y)")
    case True
    with Cons.prems a show ?thesis
      by (cases "validate schema arguments") auto
  next
    case False
    with Cons.prems a have "(p, z) \<in> set schema" by auto
    with Cons.IH Cons.prems obtain issues where
      "validate schema arguments = Inl issues" and "(p, pr) \<in> set issues" by blast
    with a show ?thesis
      by (cases "parseValue y (argument arguments q)") auto
  qed
qed

lemma rejected_before_handler:
  assumes "inputSchema name = Some schema" and "(p, z) \<in> set schema"
    and "parseValue z (argument arguments p) = Inl pr"
  shows "\<exists>issues. callTool rt name arguments = ([], Inl (InvalidArguments issues))
                 \<and> (p, pr) \<in> set issues"
proof -
  from validate_reports [OF assms(2,3)] obtain issues where
    "validate schema arguments = Inl issues" and "(p, pr) \<in> set issues" by blast
  with assms(1) show ?thesis by (simp add: callTool_def)
qed

lemma required_table:
  "map (\<lambda>name. (name, requiredParams name)) toolNames =
     [(''get-clockify-user'', []),
      (''list-clockify-workspaces'', []),
      (''list-clockify-projects'', [''workspaceId'']),
      (''list-clockify-tasks'', [''workspaceId'', ''projectId'']),
      (''list-clockify-time-entries'', [''workspaceId'', ''userId'', ''start'', ''end'']),
      (''create-clockify-time-entry'',
         [''workspaceId'', ''description'', ''start'', ''end'', ''projectId'']),
      (''update-clockify-time-entry'',
         [''timeEntryId'', ''workspaceId'', ''description'', ''start'', ''end'', ''projectId'']),
      (''delete-clockify-time-entry'', [''timeEntryId'', ''workspaceId''])]"
  by code_simp

lemma required_in_schema:
  assumes "p \<in> set (requiredParams name)"
  shows "\<exists>schema z. inputSchema name = Some schema \<and> (p, z) \<in> set schema
                   \<and> parseValue z JUndefined = Inl Required"
proof (cases "inputSchema name")
  case None
  with assms show ?thesis by (simp add: requiredParams_def)
next
  case (Some schema)
  with assms show ?thesis by (auto simp: requiredParams_def)
qed

lemma required_is_string:
  assumes "inputSchema name = Some schema" and "(p, z) \<in> set schema"
    and "parseValue z JUndefined = Inl Required"
  shows "z = ZString"
  using assms by (auto simp: inputSchema_def split: if_splits)

lemma validate_Cons_Inr:
  assumes "validate ((p, z) # schema) arguments = Inr input"
  obtains v vs where "parseValue z (argument arguments p) = Inr v"
    and "validate schema arguments = Inr vs" and "input = (p, v) # vs"
  using assms
  by (cases "parseValue z (argument arguments p)"; cases "validate schema arguments") auto

lemma validate_Nil_Inr:
  assumes "validate [] arguments = Inr input"
  shows "input = []"
  using assms by simp

lemma parsed_string:
  assumes "parseValue ZString v = Inr w"
  obtains s where "w = JStr s"
  using assms by (cases v) auto

lemma parsed_optional_string:
  assumes "parseValue (ZOptional ZString) v = Inr w"
  obtains "w = JUndefined" | s where "w = JStr s"
  using assms by (cases v) (auto split: if_splits)

lemma parsed_number:
  assumes "parseValue (ZDefault (ZMin ZNumber 1) (JNum d)) v = Inr w"
  obtains n where "w = JNum n"
  using assms by (cases v) (auto split: if_splits)

lemma parsed_boolean:
  assumes "parseValue (ZDefault (ZOptional ZBoolean) (JBool d)) v = Inr w"
  obtains b where "w = JBool b"
  using assms by (cases v) (auto split: if_splits)

lemma validated_input_is_typed:
  assumes "inputSchema name = Some schema" and "validate schema arguments = Inr input"
  shows "\<exists>call. typedInput name input = Some call"
proof -
  consider "name = ''get-clockify-user''" | "name = ''list-clockify-workspaces''"
    | "name = ''list-clockify-projects''" | "name = ''list-clockify-tasks''"
    | "name = ''list-clockify-time-entries''" | "name = ''create-clockify-time-entry''"
    | "name = ''update-clockify-time-entry''" | "name = ''delete-clockify-time-entry''"
    using assms(1) by (auto simp: inputSchema_def split: if_splits)
  then show ?thesis
  proof cases
    case 1
    then show ?thesis by (simp add: typedInput_def)
  next
    case 2
    then show ?thesis by (simp add: typedInput_def)
  next
    case 3
    with assms have "validate [(''workspaceId'', ZString), (''name'', ZOptional ZString)]
                       arguments = Inr input"
      by (simp add: inputSchema_def)
    then show ?thesis
      unfolding 3
      by (elim validate_Cons_Inr parsed_string parsed_optional_string)
         (auto dest!: validate_Nil_Inr
               simp: typedInput_def stringArg_def optionalStringArg_def)
  next
    case 4
    with assms have "validate [(''workspaceId'', ZString), (''projectId'', ZString)]
                       arguments = Inr input"
      by (simp add: inputSchema_def)
    then show ?thesis
      unfolding 4
      by (elim validate_Cons_Inr parsed_string)
         (auto dest!: validate_Nil_Inr simp: typedInput_def stringArg_def)
  next
    case 5
    with assms have "validate [(''workspaceId'', ZString), (''userId'', ZString),
                               (''start'', ZString), (''end'', ZString),
                               (''page'', ZDefault (ZMin ZNumber 1) (JNum 1)),
                               (''pageSize'', ZDefault (ZMin ZNumber 1) (JNum 100))]
                       arguments = Inr input"
      by (simp add: inputSchema_def)
    then show ?thesis
      unfolding 5
      by (elim validate_Cons_Inr parsed_string parsed_number)
         (auto dest!: validate_Nil_Inr simp: typedInput_def stringArg_def numberArg_def)
  next
    case 6
    with assms have "validate [(''workspaceId'', ZString),
                               (''billable'', ZDefault (ZOptional ZBoolean) (JBool True)),
                               (''description'', ZString), (''start'', ZString),
                               (''end'', ZString), (''projectId'', ZString)]
                       arguments = Inr input"
      by (simp add: inputSchema_def)
    then show ?thesis
      unfolding 6
      by (elim validate_Cons_Inr parsed_string parsed_boolean)
         (auto dest!: validate_Nil_Inr simp: typedInput_def stringArg_def booleanArg_def)
  next
    case 7
    with assms have "validate [(''timeEntryId'', ZString), (''workspaceId'', ZString),
                               (''billable'', ZDefault (ZOptional ZBoolean) (JBool True)),
                               (''description'', ZString), (''start'', ZString),
                               (''end'', ZString), (''projectId'', ZString)]
                       arguments = Inr input"
      by (simp add: inputSchema_def)
    then show ?thesis
      unfolding 7
      by (elim validate_Cons_Inr parsed_string parsed_boolean)
         (auto dest!: validate_Nil_Inr simp: typedInput_def stringArg_def booleanArg_def)
  next
    case 8
    with assms have "validate [(''timeEntryId'', ZString), (''workspaceId'', ZString)]
                       arguments = Inr input"
      by (simp add: inputSchema_def)
    then show ?thesis
      unfolding 8
      by (elim validate_Cons_Inr parsed_string)
         (auto dest!: validate_Nil_Inr simp: typedInput_def stringArg_def)
  qed
qed

lemma valid_arguments_reach_handler:
  assumes "inputSchema name = Some schema" and "validate schema arguments = Inr input"
  shows "\<exists>call. typedInput name input = Some call
              \<and> callTool rt name arguments = (fst (handler rt call), Inr (snd (handler rt call)))"
proof -
  from validated_input_is_typed [OF assms] obtain call where
    "typedInput name input = Some call" by blast
  with assms show ?thesis
    by (simp add: callTool_def split: prod.splits)
qed

text \<open>
  C4. (The dispatch is the protocol library's; it is modelled from the spec, the schemas
  are the program's.) An invocation with an argument that its parameter's schema refuses
  is rejected with an error that names the parameter and the problem; the handler is not
  run and no network call is made. In particular: omitting a required parameter is
  refused as \<open>Required\<close>; the required parameters of the tools are those of the spec's
  table; a \<open>page\<close> below 1 is refused as too small; a value of the wrong type for a
  string parameter is refused as of invalid type.
\<close>

theorem invalid_arguments_rejected:
  "(inputSchema name = Some schema \<and> (p, z) \<in> set schema
      \<and> parseValue z (argument arguments p) = Inl pr \<longrightarrow>
      (\<exists>issues. callTool rt name arguments = ([], Inl (InvalidArguments issues))
               \<and> (p, pr) \<in> set issues))
   \<and> (q \<in> set (requiredParams name) \<and> map_of arguments q = None \<longrightarrow>
      (\<exists>issues. callTool rt name arguments = ([], Inl (InvalidArguments issues))
               \<and> (q, Required) \<in> set issues))
   \<and> map (\<lambda>name. (name, requiredParams name)) toolNames =
       [(''get-clockify-user'', []),
        (''list-clockify-workspaces'', []),
        (''list-clockify-projects'', [''workspaceId'']),
        (''list-clockify-tasks'', [''workspaceId'', ''projectId'']),
        (''list-clockify-time-entries'', [''workspaceId'', ''userId'', ''start'', ''end'']),
        (''create-clockify-time-entry'',
           [''workspaceId'', ''description'', ''start'', ''end'', ''projectId'']),
        (''update-clockify-time-entry'',
           [''timeEntryId'', ''workspaceId'', ''description'', ''start'', ''end'',
            ''projectId'']),
        (''delete-clockify-time-entry'', [''timeEntryId'', ''workspaceId''])]
   \<and> (map_of arguments ''page'' = Some (JNum x) \<and> x < 1 \<longrightarrow>
      (\<exists>issues. callTool rt ''list-clockify-time-entries'' arguments
                  = ([], Inl (InvalidArguments issues))
               \<and> (''page'', TooSmall) \<in> set issues))
   \<and> (q \<in> set (requiredParams name) \<and> map_of arguments q = Some v
        \<and> v \<noteq> JUndefined \<and> (\<forall>s. v \<noteq> JStr s) \<longrightarrow>
      (\<exists>issues. callTool rt name arguments = ([], Inl (InvalidArguments issues))
               \<and> (q, InvalidType) \<in> set issues))"
proof (intro conjI impI)
  assume "inputSchema name = Some schema \<and> (p, z) \<in> set schema
            \<and> parseValue z (argument arguments p) = Inl pr"
  then show "\<exists>issues. callTool rt name arguments = ([], Inl (InvalidArguments issues))
                    \<and> (p, pr) \<in> set issues"
    using rejected_before_handler by blast
next
  assume a: "q \<in> set (requiredParams name) \<and> map_of arguments q = None"
  then obtain sc y where "inputSchema name = Some sc" and "(q, y) \<in> set sc"
    and "parseValue y JUndefined = Inl Required"
    using required_in_schema by blast
  moreover from a have "argument arguments q = JUndefined"
    by (simp add: argument_def)
  ultimately show "\<exists>issues. callTool rt name arguments = ([], Inl (InvalidArguments issues))
                    \<and> (q, Required) \<in> set issues"
    using rejected_before_handler [of name sc q y arguments Required rt] by simp
next
  show "map (\<lambda>name. (name, requiredParams name)) toolNames =
       [(''get-clockify-user'', []),
        (''list-clockify-workspaces'', []),
        (''list-clockify-projects'', [''workspaceId'']),
        (''list-clockify-tasks'', [''workspaceId'', ''projectId'']),
        (''list-clockify-time-entries'', [''workspaceId'', ''userId'', ''start'', ''end'']),
        (''create-clockify-time-entry'',
           [''workspaceId'', ''description'', ''start'', ''end'', ''projectId'']),
        (''update-clockify-time-entry'',
           [''timeEntryId'', ''workspaceId'', ''description'', ''start'', ''end'',
            ''projectId'']),
        (''delete-clockify-time-entry'', [''timeEntryId'', ''workspaceId''])]"
    by (rule required_table)
next
  assume a: "map_of arguments ''page'' = Some (JNum x) \<and> x < 1"
  have s: "inputSchema ''list-clockify-time-entries'' =
             Some [(''workspaceId'', ZString), (''userId'', ZString), (''start'', ZString),
                   (''end'', ZString), (''page'', ZDefault (ZMin ZNumber 1) (JNum 1)),
                   (''pageSize'', ZDefault (ZMin ZNumber 1) (JNum 100))]"
    by (simp add: inputSchema_def)
  from a have "parseValue (ZDefault (ZMin ZNumber 1) (JNum 1)) (argument arguments ''page'')
                 = Inl TooSmall"
    by (simp add: argument_def)
  then show "\<exists>issues. callTool rt ''list-clockify-time-entries'' arguments
                  = ([], Inl (InvalidArguments issues))
               \<and> (''page'', TooSmall) \<in> set issues"
    using rejected_before_handler [OF s, of "''page''" _ arguments TooSmall rt] by simp
next
  assume a: "q \<in> set (requiredParams name) \<and> map_of arguments q = Some v
               \<and> v \<noteq> JUndefined \<and> (\<forall>s. v \<noteq> JStr s)"
  then obtain sc y where sc: "inputSchema name = Some sc" and y: "(q, y) \<in> set sc"
    and r: "parseValue y JUndefined = Inl Required"
    using required_in_schema by blast
  have "y = ZString"
    using required_is_string [OF sc y r] .
  moreover from a have "argument arguments q = v"
    by (simp add: argument_def)
  ultimately have "parseValue y (argument arguments q) = Inl InvalidType"
    using a by (cases v) auto
  then show "\<exists>issues. callTool rt name arguments = ([], Inl (InvalidArguments issues))
                    \<and> (q, InvalidType) \<in> set issues"
    using rejected_before_handler [OF sc y] by blast
qed

theorem invalid_arguments_rejected_witness:
  "inputSchema ''list-clockify-tasks''
     = Some [(''workspaceId'', ZString), (''projectId'', ZString)]
   \<and> (''projectId'', ZString) \<in> set [(''workspaceId'', ZString), (''projectId'', ZString)]
   \<and> parseValue ZString (argument [(''workspaceId'', JStr ''w1'')] ''projectId'') = Inl Required
   \<and> ''projectId'' \<in> set (requiredParams ''list-clockify-tasks'')
   \<and> map_of [(''workspaceId'', JStr ''w1'')] ''projectId'' = None
   \<and> (\<exists>issues. callTool exampleService ''list-clockify-tasks'' [(''workspaceId'', JStr ''w1'')]
                  = ([], Inl (InvalidArguments issues))
               \<and> (''projectId'', Required) \<in> set issues)
   \<and> map_of [(''workspaceId'', JStr ''w1''), (''userId'', JStr ''u1''),
              (''start'', JStr ''2024-01-01T00:00:00Z''), (''end'', JStr ''2024-01-02T00:00:00Z''),
              (''page'', JNum 0)] ''page'' = Some (JNum 0)
   \<and> (0 :: number) < 1
   \<and> (\<exists>issues. callTool exampleService ''list-clockify-time-entries''
                  [(''workspaceId'', JStr ''w1''), (''userId'', JStr ''u1''),
                   (''start'', JStr ''2024-01-01T00:00:00Z''),
                   (''end'', JStr ''2024-01-02T00:00:00Z''), (''page'', JNum 0)]
                  = ([], Inl (InvalidArguments issues))
               \<and> (''page'', TooSmall) \<in> set issues)
   \<and> map_of [(''workspaceId'', JNum 5), (''projectId'', JStr ''p1'')] ''workspaceId''
       = Some (JNum 5)
   \<and> ''workspaceId'' \<in> set (requiredParams ''list-clockify-tasks'')
   \<and> JNum 5 \<noteq> JUndefined
   \<and> (\<forall>s. JNum 5 \<noteq> JStr s)
   \<and> (\<exists>issues. callTool exampleService ''list-clockify-tasks''
                  [(''workspaceId'', JNum 5), (''projectId'', JStr ''p1'')]
                  = ([], Inl (InvalidArguments issues))
               \<and> (''workspaceId'', InvalidType) \<in> set issues)"
  (is "?a \<and> ?b \<and> ?c \<and> ?d \<and> ?e \<and> ?f \<and> ?g \<and> ?h \<and> ?i \<and> ?j \<and> ?k \<and> ?l \<and> ?m \<and> ?n")
proof -
  have a: ?a by (simp add: inputSchema_def)
  have b: ?b by simp
  have c: ?c by (simp add: argument_def)
  have d: ?d by (simp add: requiredParams_def a)
  have e: ?e by simp
  have f: ?f
    using invalid_arguments_rejected
      [of "''list-clockify-tasks''" "[(''workspaceId'', ZString), (''projectId'', ZString)]"
          "''projectId''" ZString "[(''workspaceId'', JStr ''w1'')]" Required exampleService
          "''projectId''"]
      a b c by blast
  have g: ?g by simp
  have h: ?h by simp
  have i: ?i
    using invalid_arguments_rejected
      [of _ _ _ _ "[(''workspaceId'', JStr ''w1''), (''userId'', JStr ''u1''),
                    (''start'', JStr ''2024-01-01T00:00:00Z''),
                    (''end'', JStr ''2024-01-02T00:00:00Z''), (''page'', JNum 0)]"
          _ exampleService _ 0]
      g h by blast
  have j: ?j by simp
  have k: ?k by (simp add: requiredParams_def a)
  have l: ?l by simp
  have m: ?m by simp
  have n: ?n
    using invalid_arguments_rejected
      [of "''list-clockify-tasks''" _ _ _
          "[(''workspaceId'', JNum 5), (''projectId'', JStr ''p1'')]"
          _ exampleService "''workspaceId''" _ "JNum 5"]
      j k l m by blast
  from a b c d e f g h i j k l m n show ?thesis by (intro conjI)
qed

end
